theory Spec2Isabelle
  imports Main "HOL-Library.Word" "HOL-Library.Sublist"
begin

unbundle bit_operations_syntax

section \<open>The frame pass orchestrator (r3d\_draw.c, R3D\_End)\<close>

text \<open>
  \<open>R3D_End\<close> issues a fixed sequence of calls, some of them behind a guard. Every guard
  reads the resource cache, the draw-call lists or the light list. The model records the
  calls that \<open>R3D_End\<close> makes in its own body, in the order it makes them; what a pass
  does inside (its GL commands) is not part of the trace.
\<close>

datatype frame_step =
    Light_update_and_cull
  | Pass_scene_shadow
  | Draw_compute_visible_groups
  | Draw_sort_deferred
  | Draw_sort_prepass
  | Draw_sort_forward
  | Cache_bind_view_state
  | Target_clear_all_deferred
  | Pass_scene_geometry
  | Pass_scene_decals
  | Pass_prepare_ssao
  | Pass_deferred_lights
  | Pass_prepare_ssil
  | Pass_prepare_ssr
  | Pass_deferred_ambient
  | Pass_deferred_compose
  | Target_clear_depth
  | Pass_scene_background
  | Pass_scene_prepass
  | Pass_scene_forward
  | Pass_post_setup
  | Pass_post_fog
  | Pass_post_dof
  | Pass_post_bloom
  | Pass_post_output
  | Pass_post_fxaa
  | Target_blit
  | Reset_raylib_state

text \<open>
  The answers that the guards of \<open>R3D_End\<close> get: the state flags
  (\<open>R3D_CACHE_FLAGS_HAS(state, ...)\<close>), the draw-list queries (\<open>r3d_draw_has_*\<close>),
  the light query and the environment switches (\<open>fog.mode != R3D_FOG_DISABLED\<close> and
  so on).
\<close>

record frame_env =
  flag_no_frustum_culling :: bool
  flag_opaque_sorting :: bool
  flag_transparent_sorting :: bool
  flag_fxaa :: bool
  draw_has_deferred :: bool
  draw_has_decal :: bool
  draw_has_prepass :: bool
  draw_has_forward :: bool
  light_has_visible :: bool
  ssao_enabled :: bool
  ssil_enabled :: bool
  ssr_enabled :: bool
  fog_on :: bool
  dof_on :: bool
  bloom_on :: bool

definition R3D_End :: "frame_env \<Rightarrow> frame_step list" where
  "R3D_End env =
     [Light_update_and_cull, Pass_scene_shadow]
     @ (if \<not> flag_no_frustum_culling env then [Draw_compute_visible_groups] else [])
     @ (if flag_opaque_sorting env then [Draw_sort_deferred] else [])
     @ (if flag_transparent_sorting env then [Draw_sort_prepass, Draw_sort_forward] else [])
     @ [Cache_bind_view_state]
     @ (if draw_has_deferred env then
          [Target_clear_all_deferred, Pass_scene_geometry]
          @ (if draw_has_decal env then [Pass_scene_decals] else [])
          @ (if ssao_enabled env then [Pass_prepare_ssao] else [])
          @ (if light_has_visible env then [Pass_deferred_lights] else [])
          @ (if ssil_enabled env then [Pass_prepare_ssil] else [])
          @ (if ssr_enabled env then [Pass_prepare_ssr] else [])
          @ [Pass_deferred_ambient, Pass_deferred_compose]
        else [Target_clear_depth])
     @ [Pass_scene_background]
     @ (if draw_has_forward env \<or> draw_has_prepass env then
          (if draw_has_prepass env then [Pass_scene_prepass] else [])
          @ [Pass_scene_forward]
        else [])
     @ [Pass_post_setup]
     @ (if fog_on env then [Pass_post_fog] else [])
     @ (if dof_on env then [Pass_post_dof] else [])
     @ (if bloom_on env then [Pass_post_bloom] else [])
     @ [Pass_post_output]
     @ (if flag_fxaa env then [Pass_post_fxaa] else [])
     @ [Target_blit, Reset_raylib_state]"

text \<open>The fixed order of the state machine: every step that a frame can issue, once.\<close>

definition frame_order :: "frame_step list" where
  "frame_order =
     [Light_update_and_cull, Pass_scene_shadow,
      Draw_compute_visible_groups, Draw_sort_deferred, Draw_sort_prepass, Draw_sort_forward,
      Cache_bind_view_state,
      Target_clear_all_deferred, Pass_scene_geometry, Pass_scene_decals, Pass_prepare_ssao,
      Pass_deferred_lights, Pass_prepare_ssil, Pass_prepare_ssr,
      Pass_deferred_ambient, Pass_deferred_compose, Target_clear_depth,
      Pass_scene_background, Pass_scene_prepass, Pass_scene_forward,
      Pass_post_setup, Pass_post_fog, Pass_post_dof, Pass_post_bloom, Pass_post_output,
      Pass_post_fxaa, Target_blit, Reset_raylib_state]"

text \<open>The steps that no guard protects.\<close>

definition frame_always :: "frame_step list" where
  "frame_always =
     [Light_update_and_cull, Pass_scene_shadow, Cache_bind_view_state, Pass_scene_background,
      Pass_post_setup, Pass_post_output, Target_blit, Reset_raylib_state]"

text \<open>
  The state machine of the frame as a table of guards, written apart from the body of
  \<open>R3D_End\<close>: for each step, the condition under which a frame issues it. Culling runs unless the flag turns it off; the sorts follow their flags; the clear of the
  deferred targets, the geometry pass, the ambient pass and the composition run when a
  deferred draw call exists, and within them decals, SSAO, lighting, SSIL and SSR each on
  its own condition; only the depth target is cleared when no deferred draw call exists;
  the prepass needs a prepass draw call and the forward pass a forward or a prepass draw
  call; fog, depth of field, bloom and FXAA follow their switches.
\<close>

primrec issued :: "frame_env \<Rightarrow> frame_step \<Rightarrow> bool" where
  "issued env Light_update_and_cull = True"
| "issued env Pass_scene_shadow = True"
| "issued env Draw_compute_visible_groups = (\<not> flag_no_frustum_culling env)"
| "issued env Draw_sort_deferred = flag_opaque_sorting env"
| "issued env Draw_sort_prepass = flag_transparent_sorting env"
| "issued env Draw_sort_forward = flag_transparent_sorting env"
| "issued env Cache_bind_view_state = True"
| "issued env Target_clear_all_deferred = draw_has_deferred env"
| "issued env Pass_scene_geometry = draw_has_deferred env"
| "issued env Pass_scene_decals = (draw_has_deferred env \<and> draw_has_decal env)"
| "issued env Pass_prepare_ssao = (draw_has_deferred env \<and> ssao_enabled env)"
| "issued env Pass_deferred_lights = (draw_has_deferred env \<and> light_has_visible env)"
| "issued env Pass_prepare_ssil = (draw_has_deferred env \<and> ssil_enabled env)"
| "issued env Pass_prepare_ssr = (draw_has_deferred env \<and> ssr_enabled env)"
| "issued env Pass_deferred_ambient = draw_has_deferred env"
| "issued env Pass_deferred_compose = draw_has_deferred env"
| "issued env Target_clear_depth = (\<not> draw_has_deferred env)"
| "issued env Pass_scene_background = True"
| "issued env Pass_scene_prepass = draw_has_prepass env"
| "issued env Pass_scene_forward = (draw_has_forward env \<or> draw_has_prepass env)"
| "issued env Pass_post_setup = True"
| "issued env Pass_post_fog = fog_on env"
| "issued env Pass_post_dof = dof_on env"
| "issued env Pass_post_bloom = bloom_on env"
| "issued env Pass_post_output = True"
| "issued env Pass_post_fxaa = flag_fxaa env"
| "issued env Target_blit = True"
| "issued env Reset_raylib_state = True"

text \<open>
  A frame with deferred and forward draw calls, visible lights, SSAO, fog, bloom and
  FXAA, opaque sorting and culling; without decals, prepass calls, SSIL, SSR, depth of
  field and transparent sorting.
\<close>

definition example_env :: frame_env where
  "example_env =
     \<lparr>flag_no_frustum_culling = False, flag_opaque_sorting = True,
      flag_transparent_sorting = False, flag_fxaa = True,
      draw_has_deferred = True, draw_has_decal = False, draw_has_prepass = False,
      draw_has_forward = True, light_has_visible = True,
      ssao_enabled = True, ssil_enabled = False, ssr_enabled = False,
      fog_on = True, dof_on = False, bloom_on = True\<rparr>"

section \<open>Data shared by the draw and the custom-shader modules\<close>

text \<open>
  The functions modelled here only store floats and hand them on, so a \<open>float\<close> is its
  32-bit pattern. C strings are character lists without the terminating NUL. A pointer
  that may be null is an \<open>option\<close>.
\<close>

type_synonym float = "32 word"

datatype Vector2 = Vector2 float float
datatype Vector3 = Vector3 float float float
datatype Vector4 = Vector4 float float float float
datatype Color = Color "8 word" "8 word" "8 word" "8 word"

type_synonym Matrix = "float list"
type_synonym BoundingBox = "Vector3 \<times> Vector3"

text \<open>raylib's \<open>Texture2D\<close>: five 32-bit fields, 20 bytes.\<close>

record Texture2D =
  tex_id :: "32 word"
  tex_width :: "32 word"
  tex_height :: "32 word"
  tex_mipmaps :: "32 word"
  tex_format :: "32 word"

definition Texture2D_zero :: Texture2D where
  "Texture2D_zero = \<lparr>tex_id = 0, tex_width = 0, tex_height = 0, tex_mipmaps = 0, tex_format = 0\<rparr>"

subsection \<open>r3d\_shader.h\<close>

definition R3D_MAX_CUSTOM_UNIFORMS :: nat where
  "R3D_MAX_CUSTOM_UNIFORMS = 16"

definition R3D_MAX_UNIFORM_NAME_LENGTH :: nat where
  "R3D_MAX_UNIFORM_NAME_LENGTH = 64"

datatype R3D_ParamType =
    R3D_PARAM_FLOAT
  | R3D_PARAM_VEC2
  | R3D_PARAM_VEC3
  | R3D_PARAM_VEC4
  | R3D_PARAM_TEX2D

record R3D_UniformInfo =
  u_name :: string
  u_location :: int
  u_type :: R3D_ParamType
  u_texSlot :: int

text \<open>
  The value union of a material parameter. Its members \<open>f\<close>, \<open>v2\<close>, \<open>v3\<close>, \<open>v4\<close>
  and \<open>tex\<close> all start at offset 0 of the same 20 bytes, kept here as five 32-bit
  words: \<open>f\<close> is word 0, \<open>v3\<close> is words 0 to 2, \<open>tex.id\<close> is word 0.
\<close>

record param_value =
  w0 :: "32 word"
  w1 :: "32 word"
  w2 :: "32 word"
  w3 :: "32 word"
  w4 :: "32 word"

definition param_value_zero :: param_value where
  "param_value_zero = \<lparr>w0 = 0, w1 = 0, w2 = 0, w3 = 0, w4 = 0\<rparr>"

record R3D_MaterialParam =
  p_name :: string
  p_type :: R3D_ParamType
  p_value :: param_value

subsection \<open>r3d\_material.h\<close>

datatype R3D_BillboardMode = R3D_BILLBOARD_DISABLED | R3D_BILLBOARD_FRONT | R3D_BILLBOARD_Y_AXIS

datatype R3D_TransparencyMode =
  R3D_TRANSPARENCY_DISABLED | R3D_TRANSPARENCY_PREPASS | R3D_TRANSPARENCY_ALPHA

datatype R3D_BlendMode =
  R3D_BLEND_MIX | R3D_BLEND_ADDITIVE | R3D_BLEND_MULTIPLY | R3D_BLEND_PREMULTIPLIED_ALPHA

datatype R3D_CullMode = R3D_CULL_NONE | R3D_CULL_BACK | R3D_CULL_FRONT

record R3D_MapAlbedo =
  albedo_texture :: Texture2D
  albedo_color :: Color

record R3D_MapEmission =
  emission_texture :: Texture2D
  emission_color :: Color
  emission_energy :: float

record R3D_MapNormal =
  normal_texture :: Texture2D
  normal_scale :: float

record R3D_MapORM =
  orm_texture :: Texture2D
  orm_occlusion :: float
  orm_roughness :: float
  orm_metalness :: float

text \<open>
  \<open>shader\<close> is the handle of the custom shader (\<open>None\<close> for the default shader).
  \<open>params\<close> is the pointer to the parameter array: \<open>None\<close> is the null pointer,
  \<open>Some ps\<close> an allocated array whose initialised slots are \<open>ps\<close>.
\<close>

record R3D_Material =
  albedo :: R3D_MapAlbedo
  emission :: R3D_MapEmission
  normal :: R3D_MapNormal
  orm :: R3D_MapORM
  transparencyMode :: R3D_TransparencyMode
  billboardMode :: R3D_BillboardMode
  blendMode :: R3D_BlendMode
  cullMode :: R3D_CullMode
  uvOffset :: Vector2
  uvScale :: Vector2
  alphaCutoff :: float
  shader :: "nat option"
  params :: "R3D_MaterialParam list option"
  paramCount :: int
  paramCapacity :: int

text \<open>A material whose bytes are all zero, as \<open>(R3D_Material){0}\<close>.\<close>

definition R3D_Material_zero :: R3D_Material where
  "R3D_Material_zero =
     \<lparr>albedo = \<lparr>albedo_texture = Texture2D_zero, albedo_color = Color 0 0 0 0\<rparr>,
      emission = \<lparr>emission_texture = Texture2D_zero, emission_color = Color 0 0 0 0,
                  emission_energy = 0\<rparr>,
      normal = \<lparr>normal_texture = Texture2D_zero, normal_scale = 0\<rparr>,
      orm = \<lparr>orm_texture = Texture2D_zero, orm_occlusion = 0, orm_roughness = 0,
             orm_metalness = 0\<rparr>,
      transparencyMode = R3D_TRANSPARENCY_DISABLED,
      billboardMode = R3D_BILLBOARD_DISABLED,
      blendMode = R3D_BLEND_MIX,
      cullMode = R3D_CULL_NONE,
      uvOffset = Vector2 0 0,
      uvScale = Vector2 0 0,
      alphaCutoff = 0,
      shader = None,
      params = None,
      paramCount = 0,
      paramCapacity = 0\<rparr>"

text \<open>
  What the C code leaves undefined (a read through a null pointer, a read or write
  outside an array, an \<open>int\<close> result that an \<open>int\<close> cannot hold) is a fault of the
  model. An \<open>int\<close> has 32 bits.
\<close>

datatype fault = NullPointer | OutOfBounds | IntOverflow

definition INT_MAX :: int where
  "INT_MAX = 2147483647"

section \<open>Draw submission (r3d\_draw.c)\<close>

text \<open>
  Of a mesh the submission functions read \<open>layerMask\<close> and copy the rest into the draw
  call; \<open>mesh_buffers\<close> stands for the vertex and index buffers.
\<close>

record R3D_Mesh =
  mesh_buffers :: nat
  mesh_aabb :: BoundingBox
  shadowCastMode :: nat
  layerMask :: "32 word"

record R3D_Model =
  meshes :: "R3D_Mesh list"
  materials :: "R3D_Material list"
  meshMaterials :: "int list"
  meshCount :: int
  model_aabb :: BoundingBox
  model_skeleton :: nat
  model_player :: "nat option"

record r3d_draw_instanced =
  allAabb :: BoundingBox
  transforms :: "Matrix list option"
  transStride :: int
  colStride :: int
  colors :: "Color list option"
  inst_count :: int

record r3d_draw_group =
  group_aabb :: BoundingBox
  group_transform :: Matrix
  group_skeleton :: nat
  group_player :: "nat option"
  instanced :: r3d_draw_instanced

record r3d_draw_call =
  call_material :: R3D_Material
  call_mesh :: R3D_Mesh

definition BoundingBox_zero :: BoundingBox where
  "BoundingBox_zero = (Vector3 0 0 0, Vector3 0 0 0)"

text \<open>\<open>r3d_draw_group_t drawGroup = {0}\<close>\<close>

definition r3d_draw_group_zero :: r3d_draw_group where
  "r3d_draw_group_zero =
     \<lparr>group_aabb = BoundingBox_zero,
      group_transform = replicate 16 0,
      group_skeleton = 0,
      group_player = None,
      instanced = \<lparr>allAabb = BoundingBox_zero, transforms = None, transStride = 0,
                   colStride = 0, colors = None, inst_count = 0\<rparr>\<rparr>"

text \<open>
  The state that the submission functions read and write: the layer-visibility flags of
  the resource cache and the draw lists of the collector. A pushed call is kept with its
  decal flag and the index of its group.
\<close>

record draw_state =
  layers :: "32 word"
  draw_groups :: "r3d_draw_group list"
  draw_calls :: "(r3d_draw_call \<times> bool \<times> nat) list"

text \<open>
  Modelled from the spec: \<open>r3d_draw_group_push\<close> and \<open>r3d_draw_call_push\<close> live in
  modules/r3d\_draw.c, which is not among the sources. The spec (4.1) gives their
  contract: \<open>PushGroup(group)\<close> adds a group, \<open>PushCall(call, isDecal)\<close> adds a call
  and associates it with the most recently pushed group.
\<close>

definition r3d_draw_group_push :: "r3d_draw_group \<Rightarrow> draw_state \<Rightarrow> draw_state" where
  "r3d_draw_group_push g st = st\<lparr>draw_groups := draw_groups st @ [g]\<rparr>"

definition r3d_draw_call_push :: "r3d_draw_call \<Rightarrow> bool \<Rightarrow> draw_state \<Rightarrow> draw_state" where
  "r3d_draw_call_push c isDecal st =
     st\<lparr>draw_calls := draw_calls st @ [(c, isDecal, length (draw_groups st) - 1)]\<rparr>"

text \<open>
  The macro \<open>R3D_CACHE_FLAGS_HAS\<close> (r3d\_cache.h) and \<open>R3D_GetDefaultMaterial\<close> are not
  among the sources either. The submission functions take them as parameters: \<open>HAS\<close>
  applied to the cache's layer flags and a mesh's layer mask, and \<open>dflt\<close>, the default
  material.
\<close>

definition R3D_DrawMesh ::
  "(32 word \<Rightarrow> 32 word \<Rightarrow> bool) \<Rightarrow> R3D_Material \<Rightarrow>
   R3D_Mesh option \<Rightarrow> R3D_Material option \<Rightarrow> Matrix \<Rightarrow> draw_state \<Rightarrow> fault + draw_state" where
  "R3D_DrawMesh HAS dflt mesh material transform st =
     (case mesh of
        None \<Rightarrow> Inl NullPointer
      | Some m \<Rightarrow>
          if \<not> HAS (layers st) (layerMask m) then Inr st
          else
            let drawGroup = r3d_draw_group_zero\<lparr>group_transform := transform\<rparr>;
                st1 = r3d_draw_group_push drawGroup st;
                drawCall = \<lparr>call_material = (case material of Some mt \<Rightarrow> mt | None \<Rightarrow> dflt),
                            call_mesh = m\<rparr>
            in Inr (r3d_draw_call_push drawCall False st1))"

definition R3D_DrawMeshInstancedPro ::
  "(32 word \<Rightarrow> 32 word \<Rightarrow> bool) \<Rightarrow> R3D_Material \<Rightarrow>
   R3D_Mesh option \<Rightarrow> R3D_Material option \<Rightarrow> BoundingBox option \<Rightarrow> Matrix \<Rightarrow>
   Matrix list option \<Rightarrow> int \<Rightarrow> Color list option \<Rightarrow> int \<Rightarrow> int \<Rightarrow>
   draw_state \<Rightarrow> fault + draw_state" where
  "R3D_DrawMeshInstancedPro HAS dflt mesh material globalAabb globalTransform
       instanceTransforms transformsStride instanceColors colorsStride instanceCount st =
     (case mesh of
        None \<Rightarrow> Inl NullPointer
      | Some m \<Rightarrow>
          if \<not> HAS (layers st) (layerMask m) then Inr st
          else if instanceCount = 0 \<or> instanceTransforms = None then Inr st
          else
            let drawGroup = r3d_draw_group_zero
                  \<lparr>group_transform := globalTransform,
                   instanced :=
                     \<lparr>allAabb = (case globalAabb of Some bb \<Rightarrow> bb | None \<Rightarrow> BoundingBox_zero),
                      transforms = instanceTransforms,
                      transStride = transformsStride,
                      colStride = colorsStride,
                      colors = instanceColors,
                      inst_count = instanceCount\<rparr>\<rparr>;
                st1 = r3d_draw_group_push drawGroup st;
                drawCall = \<lparr>call_material = (case material of Some mt \<Rightarrow> mt | None \<Rightarrow> dflt),
                            call_mesh = m\<rparr>
            in Inr (r3d_draw_call_push drawCall False st1))"

definition R3D_DrawMeshInstanced ::
  "(32 word \<Rightarrow> 32 word \<Rightarrow> bool) \<Rightarrow> R3D_Material \<Rightarrow> Matrix \<Rightarrow>
   R3D_Mesh option \<Rightarrow> R3D_Material option \<Rightarrow> Matrix list option \<Rightarrow> int \<Rightarrow>
   draw_state \<Rightarrow> fault + draw_state" where
  "R3D_DrawMeshInstanced HAS dflt MatrixIdentity mesh material instanceTransforms instanceCount st =
     R3D_DrawMeshInstancedPro HAS dflt mesh material None MatrixIdentity
       instanceTransforms 0 None 0 instanceCount st"

text \<open>
  The mesh loop of \<open>R3D_DrawModelPro\<close> and \<open>R3D_DrawModelInstancedPro\<close>, over the
  indices \<open>i\<close> still to visit. A mesh whose layer is not enabled ends the function
  (\<open>return\<close>), with the state as it is.
\<close>

fun draw_model_loop ::
  "(32 word \<Rightarrow> 32 word \<Rightarrow> bool) \<Rightarrow> R3D_Model \<Rightarrow> nat list \<Rightarrow> draw_state \<Rightarrow> fault + draw_state" where
  "draw_model_loop HAS model [] st = Inr st"
| "draw_model_loop HAS model (i # rest) st =
     (if length (meshes model) \<le> i then Inl OutOfBounds
      else
        let mesh = meshes model ! i in
        if \<not> HAS (layers st) (layerMask mesh) then Inr st
        else if length (meshMaterials model) \<le> i then Inl OutOfBounds
        else
          let k = meshMaterials model ! i in
          if k < 0 \<or> int (length (materials model)) \<le> k then Inl OutOfBounds
          else
            let drawCall = \<lparr>call_material = materials model ! nat k, call_mesh = mesh\<rparr>
            in draw_model_loop HAS model rest (r3d_draw_call_push drawCall False st))"

definition R3D_DrawModelPro ::
  "(32 word \<Rightarrow> 32 word \<Rightarrow> bool) \<Rightarrow> R3D_Model option \<Rightarrow> Matrix \<Rightarrow> draw_state \<Rightarrow> fault + draw_state" where
  "R3D_DrawModelPro HAS model transform st =
     (case model of
        None \<Rightarrow> Inl NullPointer
      | Some md \<Rightarrow>
          let drawGroup = r3d_draw_group_zero
                \<lparr>group_aabb := model_aabb md,
                 group_transform := transform,
                 group_skeleton := model_skeleton md,
                 group_player := model_player md\<rparr>;
              st1 = r3d_draw_group_push drawGroup st
          in draw_model_loop HAS md [0 ..< nat (meshCount md)] st1)"

definition R3D_DrawModelInstancedPro ::
  "(32 word \<Rightarrow> 32 word \<Rightarrow> bool) \<Rightarrow> R3D_Model option \<Rightarrow> BoundingBox option \<Rightarrow> Matrix \<Rightarrow>
   Matrix list option \<Rightarrow> int \<Rightarrow> Color list option \<Rightarrow> int \<Rightarrow> int \<Rightarrow>
   draw_state \<Rightarrow> fault + draw_state" where
  "R3D_DrawModelInstancedPro HAS model globalAabb globalTransform
       instanceTransforms transformsStride instanceColors colorsStride instanceCount st =
     (case model of
        None \<Rightarrow> Inr st
      | Some md \<Rightarrow>
          if instanceCount = 0 \<or> instanceTransforms = None \<or> meshCount md = 0 then Inr st
          else
            let drawGroup = r3d_draw_group_zero
                  \<lparr>group_aabb := model_aabb md,
                   group_transform := globalTransform,
                   group_skeleton := model_skeleton md,
                   group_player := model_player md,
                   instanced :=
                     \<lparr>allAabb = (case globalAabb of Some bb \<Rightarrow> bb | None \<Rightarrow> BoundingBox_zero),
                      transforms = instanceTransforms,
                      transStride = transformsStride,
                      colStride = colorsStride,
                      colors = instanceColors,
                      inst_count = instanceCount\<rparr>\<rparr>;
                st1 = r3d_draw_group_push drawGroup st
            in draw_model_loop HAS md [0 ..< nat (meshCount md)] st1)"

text \<open>The draw call that the loop builds for mesh \<open>i\<close> of a model.\<close>

definition model_draw_call :: "R3D_Model \<Rightarrow> nat \<Rightarrow> r3d_draw_call" where
  "model_draw_call md i =
     \<lparr>call_material = materials md ! nat (meshMaterials md ! i), call_mesh = meshes md ! i\<rparr>"

subsection \<open>Inputs for the examples\<close>

text \<open>
  One reading of the macro \<open>R3D_CACHE_FLAGS_HAS\<close>: some bit of the mask is set in the
  flags. On the example inputs below, the reading "all bits of the mask are set" gives the
  same answers.
\<close>

definition layers_has_any :: "32 word \<Rightarrow> 32 word \<Rightarrow> bool" where
  "layers_has_any l m = (l AND m \<noteq> 0)"

definition example_mesh :: "32 word \<Rightarrow> R3D_Mesh" where
  "example_mesh lm =
     \<lparr>mesh_buffers = 1, mesh_aabb = BoundingBox_zero, shadowCastMode = 0, layerMask = lm\<rparr>"

text \<open>Three meshes: the second one is on layer 2, the others on layer 1.\<close>

definition example_model :: R3D_Model where
  "example_model =
     \<lparr>meshes = [example_mesh 1, example_mesh 2, example_mesh 1],
      materials = [R3D_Material_zero],
      meshMaterials = [0, 0, 0],
      meshCount = 3,
      model_aabb = BoundingBox_zero,
      model_skeleton = 0,
      model_player = None\<rparr>"

text \<open>Only layer 1 is enabled; nothing has been submitted yet.\<close>

definition example_state :: draw_state where
  "example_state = \<lparr>layers = 1, draw_groups = [], draw_calls = []\<rparr>"

section \<open>Custom shaders (r3d\_shader\_custom.c)\<close>

subsection \<open>The C string functions the module uses\<close>

text \<open>
  \<open>strstr\<close> and \<open>strchr\<close> return a pointer into the string or NULL; here the offset of
  the first occurrence, or \<open>None\<close>.
\<close>

primrec strstr :: "string \<Rightarrow> string \<Rightarrow> nat option" where
  "strstr [] needle = (if needle = [] then Some 0 else None)"
| "strstr (c # rest) needle =
     (if prefix needle (c # rest) then Some 0 else map_option Suc (strstr rest needle))"

primrec strchr :: "string \<Rightarrow> char \<Rightarrow> nat option" where
  "strchr [] c = None"
| "strchr (d # rest) c = (if d = c then Some 0 else map_option Suc (strchr rest c))"

definition newline :: char where
  "newline = CHR 0x0A"

definition tab :: char where
  "tab = CHR 0x09"

subsection \<open>The OpenGL driver\<close>

text \<open>
  OpenGL is outside the program. The driver's answers are a parameter of the model, and
  the commands that the module sends to the driver are collected in a list.
\<close>

datatype GLtype =
    GL_FLOAT
  | GL_FLOAT_VEC2
  | GL_FLOAT_VEC3
  | GL_FLOAT_VEC4
  | GL_SAMPLER_2D
  | GL_other_type nat

datatype GLshader_kind = GL_VERTEX_SHADER | GL_FRAGMENT_SHADER

record gl_driver =
  glCreateShader :: "GLshader_kind \<Rightarrow> nat"
  compile_status :: "GLshader_kind \<Rightarrow> string \<Rightarrow> bool"
  glCreateProgram :: nat
  link_status :: "nat \<Rightarrow> nat \<Rightarrow> bool"
  active_uniforms :: "nat \<Rightarrow> (string \<times> GLtype) list"
  glGetUniformLocation :: "nat \<Rightarrow> string \<Rightarrow> int"
  glGetUniformBlockIndex :: "nat \<Rightarrow> string \<Rightarrow> nat option"

datatype gl_call =
    GlShaderSource nat string
  | GlCompileShader nat
  | GlDeleteShader nat
  | GlAttachShader nat nat
  | GlLinkProgram nat
  | GlDeleteProgram nat
  | GlUseProgram nat
  | GlUniformBlockBinding nat nat nat
  | GlUniform1i int int
  | GlUniform1f int float
  | GlUniform2fv int "float list"
  | GlUniform3fv int "float list"
  | GlUniform4fv int "float list"
  | GlActiveTexture_TEXTURE0_plus int
  | GlBindTexture_2D "32 word"

subsection \<open>struct R3D\_Shader\<close>

text \<open>
  \<open>customUniforms\<close> is the whole array of \<open>R3D_MAX_CUSTOM_UNIFORMS\<close> entries;
  \<open>customUniformCount\<close> says how many of them are registered. The twenty cached
  locations \<open>locMatModel\<close> ... \<open>locTexBoneMatrices\<close> are kept as a list of
  (uniform name, location) in the order \<open>cache_builtin_uniforms\<close> fills them.
\<close>

record R3D_Shader =
  program :: nat
  customUniforms :: "R3D_UniformInfo list"
  customUniformCount :: nat
  nextTexSlot :: int
  builtinLocs :: "(string \<times> int) list"

definition R3D_UniformInfo_zero :: R3D_UniformInfo where
  "R3D_UniformInfo_zero = \<lparr>u_name = [], u_location = 0, u_type = R3D_PARAM_FLOAT, u_texSlot = 0\<rparr>"

text \<open>\<open>RL_CALLOC(1, sizeof(R3D_Shader))\<close>\<close>

definition R3D_Shader_zero :: R3D_Shader where
  "R3D_Shader_zero =
     \<lparr>program = 0,
      customUniforms = replicate R3D_MAX_CUSTOM_UNIFORMS R3D_UniformInfo_zero,
      customUniformCount = 0,
      nextTexSlot = 0,
      builtinLocs = []\<rparr>"

definition USER_FRAGMENT_MARKER :: string where
  "USER_FRAGMENT_MARKER = ''#define R3D_USER_FRAGMENT_MARKER 0''"

definition FIRST_CUSTOM_TEX_SLOT :: int where
  "FIRST_CUSTOM_TEX_SLOT = 5"

subsection \<open>Helper functions\<close>

definition compile_shader_source :: "gl_driver \<Rightarrow> string \<Rightarrow> GLshader_kind \<Rightarrow> nat \<times> gl_call list" where
  "compile_shader_source gl source shaderType =
     (let sh = glCreateShader gl shaderType in
      if sh = 0 then (0, [])
      else if \<not> compile_status gl shaderType source
        then (0, [GlShaderSource sh source, GlCompileShader sh, GlDeleteShader sh])
      else (sh, [GlShaderSource sh source, GlCompileShader sh]))"

definition link_shader_program :: "gl_driver \<Rightarrow> nat \<Rightarrow> nat \<Rightarrow> nat \<times> gl_call list" where
  "link_shader_program gl vertShader fragShader =
     (let prog = glCreateProgram gl in
      if prog = 0 then (0, [])
      else if \<not> link_status gl vertShader fragShader
        then (0, [GlAttachShader prog vertShader, GlAttachShader prog fragShader,
                  GlLinkProgram prog, GlDeleteProgram prog])
      else (prog, [GlAttachShader prog vertShader, GlAttachShader prog fragShader,
                   GlLinkProgram prog]))"

text \<open>
  The loop of \<open>split_user_code\<close>, on the rest of the text from \<open>line\<close> on, with what
  has been copied to the two buffers so far.
\<close>

function split_user_code_loop :: "string \<Rightarrow> string \<Rightarrow> string \<Rightarrow> string \<times> string" where
  "split_user_code_loop line uniformsDst bodyDst =
     (if line = [] then (uniformsDst, bodyDst)
      else
        let eol = strchr line newline;
            lineLen = (case eol of Some k \<Rightarrow> k | None \<Rightarrow> length line);
            trimmed = dropWhile (\<lambda>c. c = CHR '' '' \<or> c = tab) line;
            uniformsDst' =
              (if take 8 trimmed = ''uniform '' then uniformsDst @ take lineLen line @ [newline]
               else uniformsDst);
            bodyDst' =
              (if take 8 trimmed = ''uniform '' then bodyDst
               else if 0 < lineLen then bodyDst @ take lineLen line @ [newline]
               else bodyDst)
        in case eol of
             Some k \<Rightarrow> split_user_code_loop (drop (k + 1) line) uniformsDst' bodyDst'
           | None \<Rightarrow> (uniformsDst', bodyDst'))"
  by pat_completeness auto
termination
  by (relation "measure (\<lambda>(line, u, b). length line)") auto

declare split_user_code_loop.simps [simp del]

text \<open>
  Both buffers have \<open>strlen(userCode) + 1\<close> bytes. The terminating NUL that is written
  after the loop falls outside a buffer that received \<open>strlen(userCode) + 1\<close> characters.
\<close>

definition split_user_code :: "string \<Rightarrow> fault + string \<times> string" where
  "split_user_code userCode =
     (let len = length userCode;
          (outUniforms, outBody) = split_user_code_loop userCode [] []
      in if len + 1 < length outUniforms + 1 \<or> len + 1 < length outBody + 1
         then Inl OutOfBounds
         else Inr (outUniforms, outBody))"

text \<open>
  The result is \<open>Inr None\<close> where the function returns NULL. When the marker stands before
  the end of the version line, \<open>middleLen\<close> wraps around and \<open>memcpy\<close> leaves the
  source string.
\<close>

definition compose_fragment_shader :: "string \<Rightarrow> string \<Rightarrow> string \<Rightarrow> fault + string option" where
  "compose_fragment_shader baseShader userUniforms userBody =
     (case strstr baseShader ''#version'' of
        None \<Rightarrow> Inr None
      | Some versionStart \<Rightarrow>
          let versionEnd =
                (case strchr (drop versionStart baseShader) newline of
                   None \<Rightarrow> length baseShader
                 | Some k \<Rightarrow> versionStart + k + 1)
          in (case strstr baseShader USER_FRAGMENT_MARKER of
                None \<Rightarrow> Inr None
              | Some marker \<Rightarrow>
                  if marker < versionEnd then Inl OutOfBounds
                  else
                    let prefixLen = versionEnd;
                        middleLen = marker - versionEnd;
                        markerLen = length USER_FRAGMENT_MARKER
                    in Inr (Some (take prefixLen baseShader
                                  @ userUniforms
                                  @ take middleLen (drop versionEnd baseShader)
                                  @ userBody
                                  @ drop (marker + markerLen) baseShader))))"

definition builtinUniforms :: "string list" where
  "builtinUniforms =
     [''uTexAlbedo'', ''uTexNormal'', ''uTexEmission'', ''uTexORM'', ''uTexBoneMatrices'',
      ''uAlphaCutoff'', ''uNormalScale'', ''uOcclusion'', ''uRoughness'', ''uMetalness'',
      ''uAlbedoColor'', ''uEmissionEnergy'', ''uEmissionColor'',
      ''uTexCoordOffset'', ''uTexCoordScale'', ''uInstancing'', ''uSkinning'', ''uBillboard'',
      ''uMatModel'', ''uMatNormal'', ''ViewBlock'']"

text \<open>The three tests of the loop body that skip a uniform (\<open>continue\<close>).\<close>

definition skipped_uniform :: "string \<Rightarrow> bool" where
  "skipped_uniform name =
     (name \<in> set builtinUniforms \<or> take 3 name = ''gl_'' \<or> CHR ''['' \<in> set name)"

text \<open>
  The loop of \<open>discover_custom_uniforms\<close> over the active uniforms not yet visited.
  \<open>glGetActiveUniform\<close> writes at most 255 characters of the name into \<open>name[256]\<close>.
\<close>

fun discover_loop ::
  "gl_driver \<Rightarrow> (string \<times> GLtype) list \<Rightarrow> R3D_Shader \<Rightarrow> gl_call list \<Rightarrow> R3D_Shader \<times> gl_call list" where
  "discover_loop gl [] sh tr = (sh, tr)"
| "discover_loop gl ((glname, ty) # rest) sh tr =
     (if \<not> customUniformCount sh < R3D_MAX_CUSTOM_UNIFORMS then (sh, tr)
      else
        let name = take 255 glname in
        if skipped_uniform name then discover_loop gl rest sh tr
        else
          let idx = customUniformCount sh;
              info = (customUniforms sh ! idx)
                \<lparr>u_name := take (R3D_MAX_UNIFORM_NAME_LENGTH - 1) name,
                 u_location := glGetUniformLocation gl (program sh) name\<rparr>
          in case ty of
               GL_FLOAT \<Rightarrow>
                 discover_loop gl rest
                   (sh\<lparr>customUniformCount := idx + 1,
                       customUniforms := (customUniforms sh)
                         [idx := info\<lparr>u_type := R3D_PARAM_FLOAT, u_texSlot := - 1\<rparr>]\<rparr>) tr
             | GL_FLOAT_VEC2 \<Rightarrow>
                 discover_loop gl rest
                   (sh\<lparr>customUniformCount := idx + 1,
                       customUniforms := (customUniforms sh)
                         [idx := info\<lparr>u_type := R3D_PARAM_VEC2, u_texSlot := - 1\<rparr>]\<rparr>) tr
             | GL_FLOAT_VEC3 \<Rightarrow>
                 discover_loop gl rest
                   (sh\<lparr>customUniformCount := idx + 1,
                       customUniforms := (customUniforms sh)
                         [idx := info\<lparr>u_type := R3D_PARAM_VEC3, u_texSlot := - 1\<rparr>]\<rparr>) tr
             | GL_FLOAT_VEC4 \<Rightarrow>
                 discover_loop gl rest
                   (sh\<lparr>customUniformCount := idx + 1,
                       customUniforms := (customUniforms sh)
                         [idx := info\<lparr>u_type := R3D_PARAM_VEC4, u_texSlot := - 1\<rparr>]\<rparr>) tr
             | GL_SAMPLER_2D \<Rightarrow>
                 discover_loop gl rest
                   (sh\<lparr>customUniformCount := idx + 1,
                       nextTexSlot := nextTexSlot sh + 1,
                       customUniforms := (customUniforms sh)
                         [idx := info\<lparr>u_type := R3D_PARAM_TEX2D, u_texSlot := nextTexSlot sh\<rparr>]\<rparr>)
                   (tr @ [GlUseProgram (program sh),
                          GlUniform1i (u_location info) (nextTexSlot sh)])
             | GL_other_type t \<Rightarrow>
                 discover_loop gl rest
                   (sh\<lparr>customUniforms := (customUniforms sh)[idx := info]\<rparr>) tr)"

definition discover_custom_uniforms :: "gl_driver \<Rightarrow> R3D_Shader \<Rightarrow> R3D_Shader \<times> gl_call list" where
  "discover_custom_uniforms gl sh =
     discover_loop gl (active_uniforms gl (program sh))
       (sh\<lparr>customUniformCount := 0, nextTexSlot := FIRST_CUSTOM_TEX_SLOT\<rparr>) []"

definition cached_builtin_names :: "string list" where
  "cached_builtin_names =
     [''uMatModel'', ''uMatNormal'', ''uAlbedoColor'', ''uEmissionEnergy'', ''uEmissionColor'',
      ''uTexCoordOffset'', ''uTexCoordScale'', ''uInstancing'', ''uSkinning'', ''uBillboard'',
      ''uTexAlbedo'', ''uTexNormal'', ''uTexEmission'', ''uTexORM'', ''uAlphaCutoff'',
      ''uNormalScale'', ''uOcclusion'', ''uRoughness'', ''uMetalness'', ''uTexBoneMatrices'']"

definition cache_builtin_uniforms :: "gl_driver \<Rightarrow> R3D_Shader \<Rightarrow> R3D_Shader" where
  "cache_builtin_uniforms gl sh =
     sh\<lparr>builtinLocs := map (\<lambda>n. (n, glGetUniformLocation gl (program sh) n)) cached_builtin_names\<rparr>"

definition builtin_loc :: "R3D_Shader \<Rightarrow> string \<Rightarrow> int" where
  "builtin_loc sh n = (case map_of (builtinLocs sh) n of Some l \<Rightarrow> l | None \<Rightarrow> 0)"

subsection \<open>Public API\<close>

text \<open>
  The sampler set-up at the end of \<open>R3D_CreateCustomShader\<close>: each built-in sampler that
  the program has is set to its fixed texture slot.
\<close>

definition builtin_sampler_setup :: "R3D_Shader \<Rightarrow> gl_call list" where
  "builtin_sampler_setup sh =
     [GlUseProgram (program sh)]
     @ (if 0 \<le> builtin_loc sh ''uTexBoneMatrices''
        then [GlUniform1i (builtin_loc sh ''uTexBoneMatrices'') 0] else [])
     @ (if 0 \<le> builtin_loc sh ''uTexAlbedo''
        then [GlUniform1i (builtin_loc sh ''uTexAlbedo'') 1] else [])
     @ (if 0 \<le> builtin_loc sh ''uTexNormal''
        then [GlUniform1i (builtin_loc sh ''uTexNormal'') 2] else [])
     @ (if 0 \<le> builtin_loc sh ''uTexEmission''
        then [GlUniform1i (builtin_loc sh ''uTexEmission'') 3] else [])
     @ (if 0 \<le> builtin_loc sh ''uTexORM''
        then [GlUniform1i (builtin_loc sh ''uTexORM'') 4] else [])
     @ [GlUseProgram 0]"

text \<open>
  \<open>GEOMETRY_VERT\<close> and \<open>GEOMETRY_FRAG\<close> come from generated headers that are not among
  the sources: they are parameters. The result is the returned pointer (\<open>None\<close> for
  NULL) and the commands sent to the driver. Allocation is assumed to succeed.
\<close>

definition R3D_CreateCustomShader ::
  "gl_driver \<Rightarrow> string \<Rightarrow> string \<Rightarrow> string option \<Rightarrow> fault + R3D_Shader option \<times> gl_call list" where
  "R3D_CreateCustomShader gl GEOMETRY_VERT GEOMETRY_FRAG fragmentCode =
     (case fragmentCode of
        None \<Rightarrow> Inr (None, [])
      | Some code \<Rightarrow>
          if code = [] then Inr (None, [])
          else
            (case split_user_code code of
              Inl e \<Rightarrow> Inl e
            | Inr (userUniforms, userBody) \<Rightarrow>
                (case compose_fragment_shader GEOMETRY_FRAG userUniforms userBody of
                   Inl e \<Rightarrow> Inl e
                 | Inr None \<Rightarrow> Inr (None, [])
                 | Inr (Some composedFrag) \<Rightarrow>
                     let (vs, t1) = compile_shader_source gl GEOMETRY_VERT GL_VERTEX_SHADER in
                     if vs = 0 then Inr (None, t1)
                     else
                       let (fs, t2) = compile_shader_source gl composedFrag GL_FRAGMENT_SHADER in
                       if fs = 0 then Inr (None, t1 @ t2 @ [GlDeleteShader vs])
                       else
                         let (prog, t3) = link_shader_program gl vs fs;
                             t4 = [GlDeleteShader vs, GlDeleteShader fs]
                         in if prog = 0 then Inr (None, t1 @ t2 @ t3 @ t4)
                            else
                              let sh0 = R3D_Shader_zero\<lparr>program := prog\<rparr>;
                                  sh1 = cache_builtin_uniforms gl sh0;
                                  (sh2, t5) = discover_custom_uniforms gl sh1;
                                  t6 = (case glGetUniformBlockIndex gl prog ''ViewBlock'' of
                                          None \<Rightarrow> []
                                        | Some ix \<Rightarrow> [GlUniformBlockBinding prog ix 0])
                              in Inr (Some sh2,
                                      t1 @ t2 @ t3 @ t4 @ t5 @ t6 @ builtin_sampler_setup sh2))))"

subsection \<open>Material parameters\<close>

text \<open>
  The search loop of \<open>FindOrCreateParam\<close> and of \<open>R3D_BindCustomUniforms\<close>: the index
  of the first parameter whose stored name equals \<open>name\<close> (\<open>strcmp(...) == 0\<close>).
\<close>

primrec find_param :: "R3D_MaterialParam list \<Rightarrow> string \<Rightarrow> nat option" where
  "find_param [] name = None"
| "find_param (p # ps) name =
     (if p_name p = name then Some 0 else map_option Suc (find_param ps name))"

text \<open>
  The new parameter: \<open>memset\<close> to zero, then \<open>strncpy\<close> of at most
  \<open>R3D_MAX_UNIFORM_NAME_LENGTH - 1\<close> characters of the name, then the type.
\<close>

definition new_param :: "string \<Rightarrow> R3D_ParamType \<Rightarrow> R3D_MaterialParam" where
  "new_param name ty =
     \<lparr>p_name = take (R3D_MAX_UNIFORM_NAME_LENGTH - 1) name, p_type = ty,
      p_value = param_value_zero\<rparr>"

text \<open>
  \<open>&material->params[material->paramCount++]\<close> and the three statements after it, on
  the array \<open>ps\<close>. The slot must lie inside the allocation of \<open>paramCapacity\<close> entries,
  and the incremented count must be an \<open>int\<close>.
\<close>

definition add_param ::
  "R3D_Material \<Rightarrow> R3D_MaterialParam list \<Rightarrow> string \<Rightarrow> R3D_ParamType \<Rightarrow> fault + R3D_Material \<times> nat" where
  "add_param m ps name ty =
     (let idx = paramCount m in
      if idx < 0 \<or> paramCapacity m \<le> idx \<or> int (length ps) < idx then Inl OutOfBounds
      else if INT_MAX \<le> idx then Inl IntOverflow
      else Inr (m\<lparr>params := Some (take (nat idx) ps @ [new_param name ty] @ drop (nat idx + 1) ps),
                  paramCount := idx + 1\<rparr>, nat idx))"

text \<open>
  The result is the material after the call and the index of the returned parameter.
  The search reads \<open>params[0 .. paramCount - 1]\<close>: through a null pointer, or past the
  initialised slots, it faults. \<open>paramCapacity *= 2\<close> is a multiplication of \<open>int\<close>: it
  faults when the product is not an \<open>int\<close>. \<open>RL_MALLOC\<close> and \<open>RL_REALLOC\<close> are taken to
  return the memory asked for.
\<close>

definition FindOrCreateParam ::
  "R3D_Material \<Rightarrow> string \<Rightarrow> R3D_ParamType \<Rightarrow> fault + R3D_Material \<times> nat" where
  "FindOrCreateParam material name ty =
     (case params material of
        None \<Rightarrow>
          if 0 < paramCount material then Inl NullPointer
          else add_param (material\<lparr>paramCapacity := 4, params := Some [], paramCount := 0\<rparr>)
                 [] name ty
      | Some ps \<Rightarrow>
          (case find_param (take (nat (paramCount material)) ps) name of
             Some i \<Rightarrow> Inr (material, i)
           | None \<Rightarrow>
               if int (length ps) < paramCount material then Inl OutOfBounds
               else if paramCapacity material \<le> paramCount material then
                 (if INT_MAX < paramCapacity material * 2
                     \<or> paramCapacity material * 2 < - INT_MAX - 1 then Inl IntOverflow
                  else add_param (material\<lparr>paramCapacity := paramCapacity material * 2\<rparr>)
                         ps name ty)
               else add_param material ps name ty))"

text \<open>Writing through the returned pointer: \<open>param->value.<member> = ...\<close>.\<close>

definition set_param_value ::
  "R3D_Material \<Rightarrow> nat \<Rightarrow> (param_value \<Rightarrow> param_value) \<Rightarrow> R3D_Material" where
  "set_param_value m i f =
     (case params m of
        None \<Rightarrow> m
      | Some ps \<Rightarrow> m\<lparr>params := Some (ps[i := (ps ! i)\<lparr>p_value := f (p_value (ps ! i))\<rparr>])\<rparr>)"

text \<open>
  The setters take the two pointers; the result is the material behind the pointer after
  the call (\<open>None\<close> for a null material pointer).
\<close>

definition R3D_SetMaterialFloat ::
  "R3D_Material option \<Rightarrow> string option \<Rightarrow> float \<Rightarrow> fault + R3D_Material option" where
  "R3D_SetMaterialFloat material name v =
     (case (material, name) of
        (Some m, Some n) \<Rightarrow>
          (case FindOrCreateParam m n R3D_PARAM_FLOAT of
             Inl e \<Rightarrow> Inl e
           | Inr (m', i) \<Rightarrow> Inr (Some (set_param_value m' i (\<lambda>u. u\<lparr>w0 := v\<rparr>))))
      | _ \<Rightarrow> Inr material)"

definition R3D_SetMaterialVec2 ::
  "R3D_Material option \<Rightarrow> string option \<Rightarrow> Vector2 \<Rightarrow> fault + R3D_Material option" where
  "R3D_SetMaterialVec2 material name v =
     (case (material, name) of
        (Some m, Some n) \<Rightarrow>
          (case FindOrCreateParam m n R3D_PARAM_VEC2 of
             Inl e \<Rightarrow> Inl e
           | Inr (m', i) \<Rightarrow>
               Inr (Some (set_param_value m' i
                 (\<lambda>u. case v of Vector2 vx vy \<Rightarrow> u\<lparr>w0 := vx, w1 := vy\<rparr>))))
      | _ \<Rightarrow> Inr material)"

definition R3D_SetMaterialVec3 ::
  "R3D_Material option \<Rightarrow> string option \<Rightarrow> Vector3 \<Rightarrow> fault + R3D_Material option" where
  "R3D_SetMaterialVec3 material name v =
     (case (material, name) of
        (Some m, Some n) \<Rightarrow>
          (case FindOrCreateParam m n R3D_PARAM_VEC3 of
             Inl e \<Rightarrow> Inl e
           | Inr (m', i) \<Rightarrow>
               Inr (Some (set_param_value m' i
                 (\<lambda>u. case v of Vector3 vx vy vz \<Rightarrow> u\<lparr>w0 := vx, w1 := vy, w2 := vz\<rparr>))))
      | _ \<Rightarrow> Inr material)"

definition R3D_SetMaterialVec4 ::
  "R3D_Material option \<Rightarrow> string option \<Rightarrow> Vector4 \<Rightarrow> fault + R3D_Material option" where
  "R3D_SetMaterialVec4 material name v =
     (case (material, name) of
        (Some m, Some n) \<Rightarrow>
          (case FindOrCreateParam m n R3D_PARAM_VEC4 of
             Inl e \<Rightarrow> Inl e
           | Inr (m', i) \<Rightarrow>
               Inr (Some (set_param_value m' i
                 (\<lambda>u. case v of Vector4 vx vy vz vw \<Rightarrow>
                    u\<lparr>w0 := vx, w1 := vy, w2 := vz, w3 := vw\<rparr>))))
      | _ \<Rightarrow> Inr material)"

definition R3D_SetMaterialTexture ::
  "R3D_Material option \<Rightarrow> string option \<Rightarrow> Texture2D \<Rightarrow> fault + R3D_Material option" where
  "R3D_SetMaterialTexture material name texture =
     (case (material, name) of
        (Some m, Some n) \<Rightarrow>
          (case FindOrCreateParam m n R3D_PARAM_TEX2D of
             Inl e \<Rightarrow> Inl e
           | Inr (m', i) \<Rightarrow>
               Inr (Some (set_param_value m' i
                 (\<lambda>u. \<lparr>w0 = tex_id texture, w1 = tex_width texture, w2 = tex_height texture,
                        w3 = tex_mipmaps texture, w4 = tex_format texture\<rparr>))))
      | _ \<Rightarrow> Inr material)"

subsection \<open>Internal API for r3d\_draw.c\<close>

text \<open>The \<open>switch\<close> of \<open>R3D_BindCustomUniforms\<close> on the type of the uniform.\<close>

definition bind_param :: "R3D_UniformInfo \<Rightarrow> R3D_MaterialParam \<Rightarrow> gl_call list" where
  "bind_param info param =
     (let v = p_value param in
      case u_type info of
        R3D_PARAM_FLOAT \<Rightarrow> [GlUniform1f (u_location info) (w0 v)]
      | R3D_PARAM_VEC2 \<Rightarrow> [GlUniform2fv (u_location info) [w0 v, w1 v]]
      | R3D_PARAM_VEC3 \<Rightarrow> [GlUniform3fv (u_location info) [w0 v, w1 v, w2 v]]
      | R3D_PARAM_VEC4 \<Rightarrow> [GlUniform4fv (u_location info) [w0 v, w1 v, w2 v, w3 v]]
      | R3D_PARAM_TEX2D \<Rightarrow>
          [GlActiveTexture_TEXTURE0_plus (u_texSlot info), GlBindTexture_2D (w0 v)])"

text \<open>The body of the outer loop, for one discovered uniform.\<close>

definition bind_uniform :: "R3D_Material \<Rightarrow> R3D_UniformInfo \<Rightarrow> fault + gl_call list" where
  "bind_uniform material info =
     (case params material of
        None \<Rightarrow> if 0 < paramCount material then Inl NullPointer else Inr []
      | Some ps \<Rightarrow>
          (case find_param (take (nat (paramCount material)) ps) (u_name info) of
             Some j \<Rightarrow> Inr (bind_param info (ps ! j))
           | None \<Rightarrow> if int (length ps) < paramCount material then Inl OutOfBounds else Inr []))"

fun bind_loop :: "R3D_Material \<Rightarrow> R3D_UniformInfo list \<Rightarrow> fault + gl_call list" where
  "bind_loop material [] = Inr []"
| "bind_loop material (info # rest) =
     (case bind_uniform material info of
        Inl e \<Rightarrow> Inl e
      | Inr cs \<Rightarrow>
          (case bind_loop material rest of
             Inl e \<Rightarrow> Inl e
           | Inr ds \<Rightarrow> Inr (cs @ ds)))"

definition R3D_BindCustomUniforms ::
  "R3D_Shader option \<Rightarrow> R3D_Material option \<Rightarrow> fault + gl_call list" where
  "R3D_BindCustomUniforms shader_ptr material =
     (case (shader_ptr, material) of
        (Some sh, Some m) \<Rightarrow>
          if length (customUniforms sh) < customUniformCount sh then Inl OutOfBounds
          else bind_loop m (take (customUniformCount sh) (customUniforms sh))
      | _ \<Rightarrow> Inr [])"

text \<open>
  A material that the setters can work on: a null parameter array with no parameters, or
  an allocated array whose first \<open>paramCount\<close> slots are the initialised ones, within a
  capacity that is not zero and is an \<open>int\<close>.
\<close>

definition material_ok :: "R3D_Material \<Rightarrow> bool" where
  "material_ok m =
     (case params m of
        None \<Rightarrow> paramCount m = 0
      | Some ps \<Rightarrow> int (length ps) = paramCount m \<and> paramCount m \<le> paramCapacity m
                   \<and> 0 < paramCapacity m \<and> paramCapacity m \<le> INT_MAX)"

text \<open>
  A material to which a parameter can be appended: the array is still to be allocated, or
  it has a free slot, or the doubled capacity is an \<open>int\<close>.
\<close>

definition can_grow :: "R3D_Material \<Rightarrow> bool" where
  "can_grow m =
     (params m = None \<or> paramCount m < paramCapacity m \<or> paramCapacity m * 2 \<le> INT_MAX)"

text \<open>The parameters of a material, as a list.\<close>

definition params_of :: "R3D_Material \<Rightarrow> R3D_MaterialParam list" where
  "params_of m = (case params m of None \<Rightarrow> [] | Some ps \<Rightarrow> ps)"

subsection \<open>Notions used to state the properties of the material parameters\<close>

text \<open>The five setters as one function of a tagged argument.\<close>

datatype param_arg =
    Arg_Float float
  | Arg_Vec2 Vector2
  | Arg_Vec3 Vector3
  | Arg_Vec4 Vector4
  | Arg_Texture Texture2D

definition R3D_SetMaterial ::
  "R3D_Material option \<Rightarrow> string option \<Rightarrow> param_arg \<Rightarrow> fault + R3D_Material option" where
  "R3D_SetMaterial material name a =
     (case a of
        Arg_Float v \<Rightarrow> R3D_SetMaterialFloat material name v
      | Arg_Vec2 v \<Rightarrow> R3D_SetMaterialVec2 material name v
      | Arg_Vec3 v \<Rightarrow> R3D_SetMaterialVec3 material name v
      | Arg_Vec4 v \<Rightarrow> R3D_SetMaterialVec4 material name v
      | Arg_Texture t \<Rightarrow> R3D_SetMaterialTexture material name t)"

text \<open>The type tag that a setter passes to \<open>FindOrCreateParam\<close>.\<close>

fun arg_type :: "param_arg \<Rightarrow> R3D_ParamType" where
  "arg_type (Arg_Float v) = R3D_PARAM_FLOAT"
| "arg_type (Arg_Vec2 v) = R3D_PARAM_VEC2"
| "arg_type (Arg_Vec3 v) = R3D_PARAM_VEC3"
| "arg_type (Arg_Vec4 v) = R3D_PARAM_VEC4"
| "arg_type (Arg_Texture t) = R3D_PARAM_TEX2D"

text \<open>
  Reading a union member back: the value storage \<open>u\<close> holds the argument \<open>a\<close> in the
  member that belongs to the argument's type.
\<close>

fun holds_arg :: "param_value \<Rightarrow> param_arg \<Rightarrow> bool" where
  "holds_arg u (Arg_Float v) = (w0 u = v)"
| "holds_arg u (Arg_Vec2 (Vector2 vx vy)) = (w0 u = vx \<and> w1 u = vy)"
| "holds_arg u (Arg_Vec3 (Vector3 vx vy vz)) = (w0 u = vx \<and> w1 u = vy \<and> w2 u = vz)"
| "holds_arg u (Arg_Vec4 (Vector4 vx vy vz vw)) =
     (w0 u = vx \<and> w1 u = vy \<and> w2 u = vz \<and> w3 u = vw)"
| "holds_arg u (Arg_Texture t) =
     (w0 u = tex_id t \<and> w1 u = tex_width t \<and> w2 u = tex_height t
      \<and> w3 u = tex_mipmaps t \<and> w4 u = tex_format t)"

text \<open>The number of parameters of a material that are stored under the name \<open>n\<close>.\<close>

definition count_named :: "R3D_Material \<Rightarrow> string \<Rightarrow> nat" where
  "count_named m n = length (filter (\<lambda>p. p_name p = n) (params_of m))"

text \<open>Two calls of a setter in a row, the second on the material that the first left.\<close>

definition then_set ::
  "fault + R3D_Material option \<Rightarrow> string option \<Rightarrow> param_arg \<Rightarrow> fault + R3D_Material option" where
  "then_set r name a = (case r of Inl e \<Rightarrow> Inl e | Inr material \<Rightarrow> R3D_SetMaterial material name a)"

text \<open>The same material with other type tags on its parameters.\<close>

definition retag :: "(R3D_MaterialParam \<Rightarrow> R3D_ParamType) \<Rightarrow> R3D_Material \<Rightarrow> R3D_Material" where
  "retag f m = m\<lparr>params := map_option (map (\<lambda>p. p\<lparr>p_type := f p\<rparr>)) (params m)\<rparr>"

text \<open>
  The calls that binding issues for one uniform: those for the first parameter stored
  under the uniform's name, none when there is no such parameter.
\<close>

definition bind_calls :: "R3D_Material \<Rightarrow> R3D_UniformInfo \<Rightarrow> gl_call list" where
  "bind_calls m info =
     (case find_param (params_of m) (u_name info) of
        None \<Rightarrow> []
      | Some j \<Rightarrow> bind_param info (params_of m ! j))"

subsection \<open>Inputs for the examples\<close>

text \<open>A name of 64 characters, one more than a parameter can store.\<close>

definition long_name :: string where
  "long_name = replicate 64 (CHR ''a'')"

text \<open>Two names of 64 characters that differ in the last one only.\<close>

definition long_name_b :: string where
  "long_name_b = replicate 63 (CHR ''a'') @ ''b''"

definition long_name_c :: string where
  "long_name_c = replicate 63 (CHR ''a'') @ ''c''"

text \<open>A shader table with one uniform.\<close>

definition one_uniform_shader :: "string \<Rightarrow> R3D_ParamType \<Rightarrow> int \<Rightarrow> int \<Rightarrow> R3D_Shader" where
  "one_uniform_shader n ty loc slot =
     R3D_Shader_zero
       \<lparr>program := 1,
        customUniforms := (customUniforms R3D_Shader_zero)
           [0 := \<lparr>u_name = n, u_location = loc, u_type = ty, u_texSlot = slot\<rparr>],
        customUniformCount := 1,
        nextTexSlot := 5\<rparr>"

text \<open>What a setter writes into the value storage of the parameter it got.\<close>

fun arg_write :: "param_arg \<Rightarrow> param_value \<Rightarrow> param_value" where
  "arg_write (Arg_Float v) u = u\<lparr>w0 := v\<rparr>"
| "arg_write (Arg_Vec2 (Vector2 vx vy)) u = u\<lparr>w0 := vx, w1 := vy\<rparr>"
| "arg_write (Arg_Vec3 (Vector3 vx vy vz)) u = u\<lparr>w0 := vx, w1 := vy, w2 := vz\<rparr>"
| "arg_write (Arg_Vec4 (Vector4 vx vy vz vw)) u = u\<lparr>w0 := vx, w1 := vy, w2 := vz, w3 := vw\<rparr>"
| "arg_write (Arg_Texture t) u =
     \<lparr>w0 = tex_id t, w1 = tex_width t, w2 = tex_height t, w3 = tex_mipmaps t,
      w4 = tex_format t\<rparr>"

text \<open>
  A driver whose linked program has one active uniform, at location \<open>loc\<close>. Every
  shader object and program gets the handle 1, and compiling and linking succeed.
\<close>

definition one_uniform_gl :: "string \<Rightarrow> GLtype \<Rightarrow> int \<Rightarrow> gl_driver" where
  "one_uniform_gl n ty loc =
     \<lparr>glCreateShader = (\<lambda>k. 1),
      compile_status = (\<lambda>k s. True),
      glCreateProgram = 1,
      link_status = (\<lambda>v f. True),
      active_uniforms = (\<lambda>p. [(n, ty)]),
      glGetUniformLocation = (\<lambda>p u. if u = n then loc else - 1),
      glGetUniformBlockIndex = (\<lambda>p b. None)\<rparr>"

text \<open>The bit patterns of six floats.\<close>

definition f1 :: float where "f1 = 0x3F800000"
definition f2 :: float where "f2 = 0x40000000"
definition f3 :: float where "f3 = 0x40400000"
definition f4 :: float where "f4 = 0x40800000"
definition f5 :: float where "f5 = 0x40A00000"
definition f6 :: float where "f6 = 0x40C00000"

text \<open>A material that holds one float parameter, \<open>x\<close>.\<close>

definition example_material :: R3D_Material where
  "example_material =
     R3D_Material_zero
       \<lparr>paramCapacity := 4,
        params := Some [\<lparr>p_name = ''x'', p_type = R3D_PARAM_FLOAT,
                         p_value = param_value_zero\<lparr>w0 := f1\<rparr>\<rparr>],
        paramCount := 1\<rparr>"

subsection \<open>Notions used to state the properties of uniform discovery\<close>

text \<open>The supported GL types and the parameter type of each.\<close>

fun supported_type :: "GLtype \<Rightarrow> R3D_ParamType option" where
  "supported_type GL_FLOAT = Some R3D_PARAM_FLOAT"
| "supported_type GL_FLOAT_VEC2 = Some R3D_PARAM_VEC2"
| "supported_type GL_FLOAT_VEC3 = Some R3D_PARAM_VEC3"
| "supported_type GL_FLOAT_VEC4 = Some R3D_PARAM_VEC4"
| "supported_type GL_SAMPLER_2D = Some R3D_PARAM_TEX2D"
| "supported_type (GL_other_type t) = None"


text \<open>
  The descriptors expected for a list of such uniforms, in discovery order: the name cut
  to 63 characters, the location that the driver reports, the parameter type, and for a
  sampler the next free texture slot, starting from \<open>slot\<close>.
\<close>

fun expected_descriptors ::
  "gl_driver \<Rightarrow> nat \<Rightarrow> (string \<times> GLtype) list \<Rightarrow> int \<Rightarrow> R3D_UniformInfo list" where
  "expected_descriptors gl prog [] slot = []"
| "expected_descriptors gl prog ((g, ty) # rest) slot =
     \<lparr>u_name = take 63 (take 255 g),
      u_location = glGetUniformLocation gl prog (take 255 g),
      u_type = (case supported_type ty of Some t \<Rightarrow> t | None \<Rightarrow> R3D_PARAM_FLOAT),
      u_texSlot = (if ty = GL_SAMPLER_2D then slot else - 1)\<rparr>
     # expected_descriptors gl prog rest (if ty = GL_SAMPLER_2D then slot + 1 else slot)"






text \<open>
  A program with twenty-one active uniforms: a built-in one, an array element, one with
  the reserved prefix, a matrix (not supported), and seventeen supported ones, of which
  the first, the fourth and the last are samplers.
\<close>

definition example_uniforms :: "(string \<times> GLtype) list" where
  "example_uniforms =
     [(''uTexAlbedo'', GL_SAMPLER_2D), (''uArr[0]'', GL_FLOAT), (''gl_Thing'', GL_FLOAT),
      (''uMat'', GL_other_type 35676),
      (''uTexA'', GL_SAMPLER_2D), (''uA'', GL_FLOAT), (''uB'', GL_FLOAT_VEC2),
      (''uTexB'', GL_SAMPLER_2D), (''uC'', GL_FLOAT_VEC3), (''uD'', GL_FLOAT_VEC4),
      (''uE'', GL_FLOAT), (''uF'', GL_FLOAT), (''uG'', GL_FLOAT), (''uH'', GL_FLOAT),
      (''uI'', GL_FLOAT), (''uJ'', GL_FLOAT), (''uK'', GL_FLOAT), (''uL'', GL_FLOAT),
      (''uM'', GL_FLOAT), (''uN'', GL_FLOAT), (''uTexC'', GL_SAMPLER_2D)]"

text \<open>
  A driver that compiles and links everything, reports these uniforms for every program,
  and gives each uniform the length of its name as location.
\<close>

definition example_gl :: gl_driver where
  "example_gl =
     \<lparr>glCreateShader = (\<lambda>k. case k of GL_VERTEX_SHADER \<Rightarrow> 1 | GL_FRAGMENT_SHADER \<Rightarrow> 2),
      compile_status = (\<lambda>k s. True),
      glCreateProgram = 3,
      link_status = (\<lambda>v f. True),
      active_uniforms = (\<lambda>p. example_uniforms),
      glGetUniformLocation = (\<lambda>p u. int (length u)),
      glGetUniformBlockIndex = (\<lambda>p b. None)\<rparr>"

text \<open>A small template, a vertex source and a user source.\<close>

definition example_frag :: string where
  "example_frag =
     ''// geometry'' @ [newline] @ ''#version 330 core'' @ [newline] @ ''void main() {''
     @ [newline] @ USER_FRAGMENT_MARKER @ [newline] @ ''}'' @ [newline]"

definition example_vert :: string where
  "example_vert = ''#version 330 core'' @ [newline] @ ''void main() {}'' @ [newline]"

definition example_code :: string where
  "example_code =
     ''uniform float uA;'' @ [newline] @ [newline] @ ''  '' @ [tab] @ ''uniform sampler2D uTexA;''
     @ [newline] @ ''ALBEDO.rgb *= uA;'' @ [newline] @ ''   '' @ [newline] @ ''uniform'' @ [tab]
     @ ''float uB;'' @ [newline] @ ''EMISSION = vec3(0.0);''"

subsection \<open>Notions used to state the properties of the source composition\<close>

text \<open>
  The lines of a text, read character by character: a line ends at a newline, and the
  characters after the last newline, when there are any, are the last line.
\<close>

primrec lines_acc :: "string \<Rightarrow> string \<Rightarrow> string list" where
  "lines_acc [] cur = (if cur = [] then [] else [cur])"
| "lines_acc (c # cs) cur =
     (if c = newline then cur # lines_acc cs [] else lines_acc cs (cur @ [c]))"

definition source_lines :: "string \<Rightarrow> string list" where
  "source_lines s = lines_acc s []"

text \<open>
  A line is routed to the declarations when, after its leading spaces and tabs, it
  begins with the eight characters \<open>uniform\<close> and space.
\<close>

definition is_uniform_line :: "string \<Rightarrow> bool" where
  "is_uniform_line l = (take 8 (dropWhile (\<lambda>c. c = CHR '' '' \<or> c = tab) l) = ''uniform '')"

text \<open>Lines put one after the other, each followed by a newline.\<close>

definition joined :: "string list \<Rightarrow> string" where
  "joined ls = concat (map (\<lambda>l. l @ [newline]) ls)"

definition user_declarations :: "string \<Rightarrow> string" where
  "user_declarations s = joined (filter is_uniform_line (source_lines s))"

definition user_body :: "string \<Rightarrow> string" where
  "user_body s = joined (filter (\<lambda>l. \<not> is_uniform_line l \<and> l \<noteq> []) (source_lines s))"

text \<open>The offset just after the version line that starts at \<open>vs\<close>.\<close>

definition version_line_end :: "string \<Rightarrow> nat \<Rightarrow> nat" where
  "version_line_end base vs =
     (case strchr (drop vs base) newline of None \<Rightarrow> length base | Some k \<Rightarrow> vs + k + 1)"

text \<open>
  The three pieces of the template around the version line (which starts at \<open>vs\<close>) and
  the marker (which starts at \<open>mk\<close>): up to and including the version line, from there
  up to the marker, and after the marker.
\<close>

definition template_head :: "string \<Rightarrow> nat \<Rightarrow> string" where
  "template_head base vs = take (version_line_end base vs) base"

definition template_middle :: "string \<Rightarrow> nat \<Rightarrow> nat \<Rightarrow> string" where
  "template_middle base vs mk =
     take (mk - version_line_end base vs) (drop (version_line_end base vs) base)"

definition template_tail :: "string \<Rightarrow> nat \<Rightarrow> string" where
  "template_tail base mk = drop (mk + length USER_FRAGMENT_MARKER) base"

text \<open>
  A user source of two lines: a declaration whose keyword is followed by a tab, and a
  statement that uses the declared uniform.
\<close>

definition tab_declaration_code :: string where
  "tab_declaration_code =
     ''uniform'' @ [tab] @ ''float uB;'' @ [newline] @ ''ALBEDO.r = uB;'' @ [newline]"

section \<open>Properties of the frame orchestrator\<close>

lemma subseq_opt_step:
  "subseq xs ys \<Longrightarrow> subseq ((if c then [a] else []) @ xs) (a # ys)"
  by (simp add: list_emb_Cons)

lemma subseq_keep_step: "subseq xs ys \<Longrightarrow> subseq ([a] @ xs) (a # ys)"
  by simp

lemma subseq_skip_step: "subseq xs ys \<Longrightarrow> subseq xs (a # ys)"
  by (rule list_emb_Cons)

lemma subseq_imp_distinct: "subseq xs ys \<Longrightarrow> distinct ys \<Longrightarrow> distinct xs"
  by (auto simp: subseq_conv_nths)

lemma frame_order_distinct: "distinct frame_order"
  by (simp add: frame_order_def)

lemma frame_post_subseq:
  "subseq
     ([Pass_post_setup]
      @ (if fog_on env then [Pass_post_fog] else [])
      @ (if dof_on env then [Pass_post_dof] else [])
      @ (if bloom_on env then [Pass_post_bloom] else [])
      @ [Pass_post_output]
      @ (if flag_fxaa env then [Pass_post_fxaa] else [])
      @ [Target_blit, Reset_raylib_state])
     [Pass_post_setup, Pass_post_fog, Pass_post_dof, Pass_post_bloom, Pass_post_output,
      Pass_post_fxaa, Target_blit, Reset_raylib_state]"
  by (intro subseq_opt_step subseq_keep_step) simp

lemma frame_transparent_subseq:
  "subseq xs ys \<Longrightarrow>
   subseq
     ([Pass_scene_background]
      @ (if draw_has_forward env \<or> draw_has_prepass env then
           (if draw_has_prepass env then [Pass_scene_prepass] else [])
           @ [Pass_scene_forward]
         else [])
      @ xs)
     (Pass_scene_background # Pass_scene_prepass # Pass_scene_forward # ys)"
  by (simp add: list_emb_Cons)

lemma frame_deferred_subseq:
  "subseq xs ys \<Longrightarrow>
   subseq
     ((if draw_has_deferred env then
          [Target_clear_all_deferred, Pass_scene_geometry]
          @ (if draw_has_decal env then [Pass_scene_decals] else [])
          @ (if ssao_enabled env then [Pass_prepare_ssao] else [])
          @ (if light_has_visible env then [Pass_deferred_lights] else [])
          @ (if ssil_enabled env then [Pass_prepare_ssil] else [])
          @ (if ssr_enabled env then [Pass_prepare_ssr] else [])
          @ [Pass_deferred_ambient, Pass_deferred_compose]
        else [Target_clear_depth])
      @ xs)
     (Target_clear_all_deferred # Pass_scene_geometry # Pass_scene_decals # Pass_prepare_ssao #
      Pass_deferred_lights # Pass_prepare_ssil # Pass_prepare_ssr #
      Pass_deferred_ambient # Pass_deferred_compose # Target_clear_depth # ys)"
proof (cases "draw_has_deferred env")
  case True
  assume xy: "subseq xs ys"
  have tail: "subseq ([Pass_deferred_ambient, Pass_deferred_compose] @ xs)
     (Pass_deferred_ambient # Pass_deferred_compose # Target_clear_depth # ys)"
    using xy by (simp add: list_emb_Cons)
  have "subseq
     ([Target_clear_all_deferred] @ [Pass_scene_geometry]
      @ (if draw_has_decal env then [Pass_scene_decals] else [])
      @ (if ssao_enabled env then [Pass_prepare_ssao] else [])
      @ (if light_has_visible env then [Pass_deferred_lights] else [])
      @ (if ssil_enabled env then [Pass_prepare_ssil] else [])
      @ (if ssr_enabled env then [Pass_prepare_ssr] else [])
      @ ([Pass_deferred_ambient, Pass_deferred_compose] @ xs))
     (Target_clear_all_deferred # Pass_scene_geometry # Pass_scene_decals # Pass_prepare_ssao #
      Pass_deferred_lights # Pass_prepare_ssil # Pass_prepare_ssr #
      Pass_deferred_ambient # Pass_deferred_compose # Target_clear_depth # ys)"
    by (intro subseq_opt_step subseq_keep_step) (rule tail)
  with True show ?thesis by simp
next
  case False
  assume "subseq xs ys"
  with False show ?thesis by (simp add: list_emb_Cons)
qed

lemma frame_prologue_subseq:
  "subseq xs ys \<Longrightarrow>
   subseq
     ([Light_update_and_cull, Pass_scene_shadow]
      @ (if \<not> flag_no_frustum_culling env then [Draw_compute_visible_groups] else [])
      @ (if flag_opaque_sorting env then [Draw_sort_deferred] else [])
      @ (if flag_transparent_sorting env then [Draw_sort_prepass, Draw_sort_forward] else [])
      @ [Cache_bind_view_state]
      @ xs)
     (Light_update_and_cull # Pass_scene_shadow # Draw_compute_visible_groups #
      Draw_sort_deferred # Draw_sort_prepass # Draw_sort_forward # Cache_bind_view_state # ys)"
  by (simp add: list_emb_Cons)

lemma R3D_End_subseq_order: "subseq (R3D_End env) frame_order"
  unfolding R3D_End_def frame_order_def
  by (intro frame_prologue_subseq frame_deferred_subseq frame_transparent_subseq
        frame_post_subseq)

lemma subseq_past_opt: "subseq xs ys \<Longrightarrow> subseq xs ((if c then zs else ws) @ ys)"
  by (rule subseq_drop_many)

lemma subseq_take1: "subseq xs ys \<Longrightarrow> subseq (a # xs) ([a] @ ys)"
  by simp

lemma subseq_take2: "subseq xs ys \<Longrightarrow> subseq (a # b # xs) ([a, b] @ ys)"
  by simp

lemma R3D_End_always: "subseq frame_always (R3D_End env)"
  unfolding frame_always_def R3D_End_def
  by (intro subseq_take2 subseq_take1 subseq_past_opt) simp

lemma R3D_End_issued: "R3D_End env = filter (issued env) frame_order"
proof -
  have fo: "frame_order =
     [Light_update_and_cull, Pass_scene_shadow]
     @ [Draw_compute_visible_groups]
     @ [Draw_sort_deferred]
     @ [Draw_sort_prepass, Draw_sort_forward]
     @ [Cache_bind_view_state]
     @ [Target_clear_all_deferred, Pass_scene_geometry, Pass_scene_decals, Pass_prepare_ssao,
        Pass_deferred_lights, Pass_prepare_ssil, Pass_prepare_ssr,
        Pass_deferred_ambient, Pass_deferred_compose, Target_clear_depth]
     @ [Pass_scene_background]
     @ [Pass_scene_prepass, Pass_scene_forward]
     @ [Pass_post_setup]
     @ [Pass_post_fog]
     @ [Pass_post_dof]
     @ [Pass_post_bloom]
     @ [Pass_post_output]
     @ [Pass_post_fxaa]
     @ [Target_blit, Reset_raylib_state]"
    by (simp add: frame_order_def)
  have s1: "filter (issued env) [Light_update_and_cull, Pass_scene_shadow] =
              [Light_update_and_cull, Pass_scene_shadow]"
    by simp
  have s2: "filter (issued env) [Draw_compute_visible_groups] =
              (if \<not> flag_no_frustum_culling env then [Draw_compute_visible_groups] else [])"
    by simp
  have s3: "filter (issued env) [Draw_sort_deferred] =
              (if flag_opaque_sorting env then [Draw_sort_deferred] else [])"
    by simp
  have s4: "filter (issued env) [Draw_sort_prepass, Draw_sort_forward] =
              (if flag_transparent_sorting env then [Draw_sort_prepass, Draw_sort_forward]
               else [])"
    by simp
  have s5: "filter (issued env) [Cache_bind_view_state] = [Cache_bind_view_state]"
    by simp
  have s6: "filter (issued env)
              [Target_clear_all_deferred, Pass_scene_geometry, Pass_scene_decals,
               Pass_prepare_ssao, Pass_deferred_lights, Pass_prepare_ssil, Pass_prepare_ssr,
               Pass_deferred_ambient, Pass_deferred_compose, Target_clear_depth] =
            (if draw_has_deferred env then
               [Target_clear_all_deferred, Pass_scene_geometry]
               @ (if draw_has_decal env then [Pass_scene_decals] else [])
               @ (if ssao_enabled env then [Pass_prepare_ssao] else [])
               @ (if light_has_visible env then [Pass_deferred_lights] else [])
               @ (if ssil_enabled env then [Pass_prepare_ssil] else [])
               @ (if ssr_enabled env then [Pass_prepare_ssr] else [])
               @ [Pass_deferred_ambient, Pass_deferred_compose]
             else [Target_clear_depth])"
    by simp
  have s7: "filter (issued env) [Pass_scene_background] = [Pass_scene_background]"
    by simp
  have s8: "filter (issued env) [Pass_scene_prepass, Pass_scene_forward] =
            (if draw_has_forward env \<or> draw_has_prepass env then
               (if draw_has_prepass env then [Pass_scene_prepass] else [])
               @ [Pass_scene_forward]
             else [])"
    by simp
  have s9: "filter (issued env) [Pass_post_setup] = [Pass_post_setup]"
    by simp
  have s10: "filter (issued env) [Pass_post_fog] = (if fog_on env then [Pass_post_fog] else [])"
    by simp
  have s11: "filter (issued env) [Pass_post_dof] = (if dof_on env then [Pass_post_dof] else [])"
    by simp
  have s12: "filter (issued env) [Pass_post_bloom] =
               (if bloom_on env then [Pass_post_bloom] else [])"
    by simp
  have s13: "filter (issued env) [Pass_post_output] = [Pass_post_output]"
    by simp
  have s14: "filter (issued env) [Pass_post_fxaa] =
               (if flag_fxaa env then [Pass_post_fxaa] else [])"
    by simp
  have s15: "filter (issued env) [Target_blit, Reset_raylib_state] =
               [Target_blit, Reset_raylib_state]"
    by simp
  show ?thesis
    unfolding fo filter_append s1 s2 s3 s4 s5 s6 s7 s8 s9 s10 s11 s12 s13 s14 s15 R3D_End_def
    by (rule refl)
qed

text \<open>
  Claim C1. Whatever the flags, the draw lists, the lights and the environment say, one
  call of \<open>R3D_End\<close> issues exactly the steps of the fixed order whose guard holds, each
  once and in the fixed order: light update and shadow pass; group culling (unless the
  flag turns it off) and the sorts that the flags ask for; when a deferred draw call
  exists, the clear, geometry, decals (when a decal exists), SSAO (when enabled), lighting
  (when a light is visible), SSIL and SSR (when enabled), ambient and composition, and
  otherwise the clear of the depth target alone; the background; the prepass (when a
  prepass draw call exists) and the forward pass (when a forward or a prepass draw call
  exists); post setup, fog, depth of field and bloom (each when switched on), the tonemap
  output, FXAA (when the flag is set); the blit; the state reset. The fixed order lists
  every step once, so no step is issued twice and none is issued before a step that
  precedes it in the fixed order. The shadow pass, the background, the tonemap output and
  the blit are issued in every frame.
\<close>

theorem R3D_End_fixed_order:
  "R3D_End env = filter (issued env) frame_order
   \<and> subseq (R3D_End env) frame_order \<and> distinct frame_order \<and> distinct (R3D_End env)
   \<and> subseq frame_always (R3D_End env)"
proof -
  have e: "R3D_End env = filter (issued env) frame_order" by (rule R3D_End_issued)
  have s: "subseq (R3D_End env) frame_order" by (rule R3D_End_subseq_order)
  have d: "distinct frame_order" by (rule frame_order_distinct)
  from s d have "distinct (R3D_End env)" by (rule subseq_imp_distinct)
  with e s d R3D_End_always show ?thesis by blast
qed

theorem R3D_End_fixed_order_witness:
  "R3D_End example_env =
     [Light_update_and_cull, Pass_scene_shadow, Draw_compute_visible_groups,
      Draw_sort_deferred, Cache_bind_view_state, Target_clear_all_deferred,
      Pass_scene_geometry, Pass_prepare_ssao, Pass_deferred_lights, Pass_deferred_ambient,
      Pass_deferred_compose, Pass_scene_background, Pass_scene_forward, Pass_post_setup,
      Pass_post_fog, Pass_post_bloom, Pass_post_output, Pass_post_fxaa, Target_blit,
      Reset_raylib_state]"
proof -
  from R3D_End_fixed_order [of example_env]
  have "R3D_End example_env = filter (issued example_env) frame_order" by (rule conjunct1)
  then show ?thesis
    by (simp add: frame_order_def example_env_def)
qed

section \<open>Properties of draw submission\<close>

lemma layers_draw_call_push [simp]: "layers (r3d_draw_call_push c d st) = layers st"
  by (simp add: r3d_draw_call_push_def)

lemma draw_groups_draw_call_push [simp]:
  "draw_groups (r3d_draw_call_push c d st) = draw_groups st"
  by (simp add: r3d_draw_call_push_def)

lemma draw_calls_draw_call_push [simp]:
  "draw_calls (r3d_draw_call_push c d st) =
     draw_calls st @ [(c, d, length (draw_groups st) - 1)]"
  by (simp add: r3d_draw_call_push_def)

text \<open>
  The loop visits the indices \<open>pre\<close>, all of them in range and on an enabled layer, and
  then reaches \<open>k\<close>, whose layer is not enabled: it returns there, whatever \<open>post\<close> is.
\<close>

lemma draw_model_loop_returns:
  assumes "\<forall>i \<in> set pre. i < length (meshes md) \<and> HAS (layers st) (layerMask (meshes md ! i))
             \<and> i < length (meshMaterials md) \<and> 0 \<le> meshMaterials md ! i
             \<and> meshMaterials md ! i < int (length (materials md))"
    and "k < length (meshes md)"
    and "\<not> HAS (layers st) (layerMask (meshes md ! k))"
  shows "draw_model_loop HAS md (pre @ k # post) st =
           Inr (st\<lparr>draw_calls := draw_calls st @
                  map (\<lambda>i. (model_draw_call md i, False, length (draw_groups st) - 1)) pre\<rparr>)"
  using assms
proof (induction pre arbitrary: st)
  case Nil
  then show ?case by simp
next
  case (Cons i pre)
  let ?c = "model_draw_call md i"
  let ?st = "r3d_draw_call_push ?c False st"
  have step: "draw_model_loop HAS md ((i # pre) @ k # post) st =
                draw_model_loop HAS md (pre @ k # post) ?st"
    using Cons.prems(1) by (simp add: model_draw_call_def Let_def)
  have "draw_model_loop HAS md (pre @ k # post) ?st =
          Inr (?st\<lparr>draw_calls := draw_calls ?st @
                 map (\<lambda>i. (model_draw_call md i, False, length (draw_groups ?st) - 1)) pre\<rparr>)"
    using Cons.prems by (intro Cons.IH) simp_all
  with step show ?case by (simp add: r3d_draw_call_push_def)
qed

lemma upt_split_at: "k < n \<Longrightarrow> [0 ..< n] = [0 ..< k] @ k # [Suc k ..< n]"
  by (metis le_add2 le_add_same_cancel2 less_imp_add_positive upt_add_eq_append upt_conv_Cons)

text \<open>
  Claim C9. In \<open>R3D_DrawModelPro\<close> and \<open>R3D_DrawModelInstancedPro\<close>, let mesh \<open>k\<close> be
  the first mesh of the model whose layer mask is not in the layer-visibility flags. The
  function returns at mesh \<open>k\<close>: the draw group pushed before the loop and the draw calls
  of the meshes before \<open>k\<close> are all that is submitted. Nothing is assumed of the meshes
  after \<open>k\<close>, so none of them is submitted even when its layer is enabled.
\<close>

theorem draw_model_returns_at_hidden_mesh:
  assumes "k < nat (meshCount md)" and "k < length (meshes md)"
    and "\<forall>i < k. HAS (layers st) (layerMask (meshes md ! i))
             \<and> i < length (meshMaterials md) \<and> 0 \<le> meshMaterials md ! i
             \<and> meshMaterials md ! i < int (length (materials md))"
    and "\<not> HAS (layers st) (layerMask (meshes md ! k))"
    and "instanceCount \<noteq> 0"
  shows "R3D_DrawModelPro HAS (Some md) transform st =
           Inr (st\<lparr>draw_groups := draw_groups st @
                    [r3d_draw_group_zero
                       \<lparr>group_aabb := model_aabb md, group_transform := transform,
                        group_skeleton := model_skeleton md,
                        group_player := model_player md\<rparr>],
                  draw_calls := draw_calls st @
                    map (\<lambda>i. (model_draw_call md i, False, length (draw_groups st))) [0 ..< k]\<rparr>)
       \<and> R3D_DrawModelInstancedPro HAS (Some md) globalAabb transform (Some ts) tstride cols
             cstride instanceCount st =
           Inr (st\<lparr>draw_groups := draw_groups st @
                    [r3d_draw_group_zero
                       \<lparr>group_aabb := model_aabb md, group_transform := transform,
                        group_skeleton := model_skeleton md,
                        group_player := model_player md,
                        instanced :=
                          \<lparr>allAabb = (case globalAabb of Some bb \<Rightarrow> bb | None \<Rightarrow> BoundingBox_zero),
                           transforms = Some ts, transStride = tstride, colStride = cstride,
                           colors = cols, inst_count = instanceCount\<rparr>\<rparr>],
                  draw_calls := draw_calls st @
                    map (\<lambda>i. (model_draw_call md i, False, length (draw_groups st))) [0 ..< k]\<rparr>)"
proof -
  have split: "[0 ..< nat (meshCount md)] = [0 ..< k] @ k # [Suc k ..< nat (meshCount md)]"
    using assms(1) by (rule upt_split_at)
  have count: "meshCount md \<noteq> 0" using assms(1) by auto
  have loop: "draw_model_loop HAS md ([0 ..< k] @ k # [Suc k ..< nat (meshCount md)])
                (r3d_draw_group_push g st) =
              Inr ((r3d_draw_group_push g st)\<lparr>draw_calls := draw_calls (r3d_draw_group_push g st) @
                  map (\<lambda>i. (model_draw_call md i, False,
                             length (draw_groups (r3d_draw_group_push g st)) - 1)) [0 ..< k]\<rparr>)" for g
    using assms(2,3,4) by (intro draw_model_loop_returns) (simp_all add: r3d_draw_group_push_def)
  show ?thesis
    using count assms(5)
    by (simp add: R3D_DrawModelPro_def R3D_DrawModelInstancedPro_def Let_def split loop)
       (simp_all add: r3d_draw_group_push_def)
qed

theorem draw_model_returns_at_hidden_mesh_witness:
  "layers_has_any (layers example_state) (layerMask (meshes example_model ! 2))
   \<and> R3D_DrawModelPro layers_has_any (Some example_model) [] example_state =
       Inr \<lparr>layers = 1,
            draw_groups = [r3d_draw_group_zero\<lparr>group_transform := []\<rparr>],
            draw_calls = [(model_draw_call example_model 0, False, 0)]\<rparr>
   \<and> R3D_DrawModelInstancedPro layers_has_any (Some example_model) None [] (Some [[]]) 0 None 0 1
         example_state =
       Inr \<lparr>layers = 1,
            draw_groups = [r3d_draw_group_zero
               \<lparr>group_transform := [],
                instanced := \<lparr>allAabb = BoundingBox_zero, transforms = Some [[]],
                              transStride = 0, colStride = 0, colors = None, inst_count = 1\<rparr>\<rparr>],
            draw_calls = [(model_draw_call example_model 0, False, 0)]\<rparr>"
proof -
  have vis: "layers_has_any (layers example_state) (layerMask (meshes example_model ! 2))"
    by (simp add: layers_has_any_def example_state_def example_model_def example_mesh_def)
  have h1: "(1::nat) < nat (meshCount example_model)"
    by (simp add: example_model_def)
  have h2: "(1::nat) < length (meshes example_model)"
    by (simp add: example_model_def)
  have h3: "\<forall>i < (1::nat). layers_has_any (layers example_state) (layerMask (meshes example_model ! i))
             \<and> i < length (meshMaterials example_model) \<and> 0 \<le> meshMaterials example_model ! i
             \<and> meshMaterials example_model ! i < int (length (materials example_model))"
    by (simp add: layers_has_any_def example_state_def example_model_def example_mesh_def)
  have h4: "\<not> layers_has_any (layers example_state) (layerMask (meshes example_model ! 1))"
    by (simp add: layers_has_any_def example_state_def example_model_def example_mesh_def)
  have h5: "(1::int) \<noteq> 0" by simp
  show ?thesis
    using vis draw_model_returns_at_hidden_mesh [where k = 1 and md = example_model
        and HAS = layers_has_any and st = example_state and instanceCount = 1
        and transform = "[]" and globalAabb = None and ts = "[[]]" and tstride = 0
        and cols = None and cstride = 0, OF h1 h2 h3 h4 h5]
    by (simp add: example_state_def example_model_def r3d_draw_group_zero_def BoundingBox_zero_def)
qed

lemma draw_group_push_result:
  "r3d_draw_call_push c False (r3d_draw_group_push g st) =
     st\<lparr>draw_groups := draw_groups st @ [g],
        draw_calls := draw_calls st @ [(c, False, length (draw_groups st))]\<rparr>"
  by (simp add: r3d_draw_call_push_def r3d_draw_group_push_def)

text \<open>
  Claim C5, as stated, fails: with a null material pointer \<open>R3D_DrawMesh\<close> is not a
  no-op. For a mesh on an enabled layer it submits one draw group and one draw call, the
  call carrying the default material.
\<close>

theorem draw_mesh_null_material_counterexample:
  "R3D_DrawMesh layers_has_any R3D_Material_zero (Some (example_mesh 1)) None [] example_state =
     Inr \<lparr>layers = 1,
          draw_groups = [r3d_draw_group_zero\<lparr>group_transform := []\<rparr>],
          draw_calls = [(\<lparr>call_material = R3D_Material_zero, call_mesh = example_mesh 1\<rparr>,
                         False, 0)]\<rparr>
   \<and> R3D_DrawMesh layers_has_any R3D_Material_zero (Some (example_mesh 1)) None [] example_state
     \<noteq> Inr example_state"
  by (simp add: R3D_DrawMesh_def layers_has_any_def example_state_def example_mesh_def
      draw_group_push_result)

text \<open>
  Claim C5, amended. For a submission with a non-null mesh:
  a mesh whose layer is not enabled submits nothing; a null material pointer is replaced
  by the default material, and the draw group and the draw call are submitted as for any
  other material; an instanced submission with \<open>instanceCount = 0\<close> or a null
  instance-transforms pointer submits nothing, whatever the material pointer is. (A null
  mesh pointer is dereferenced by the layer test; the amended claim says nothing of it.)
\<close>

theorem draw_mesh_null_arguments:
  "(\<not> HAS (layers st) (layerMask m) \<longrightarrow>
      R3D_DrawMesh HAS dflt (Some m) material transform st = Inr st
      \<and> R3D_DrawMeshInstancedPro HAS dflt (Some m) material globalAabb transform
          instanceTransforms tstride cols cstride instanceCount st = Inr st)
   \<and> (HAS (layers st) (layerMask m) \<longrightarrow>
      R3D_DrawMesh HAS dflt (Some m) None transform st =
        Inr (st\<lparr>draw_groups := draw_groups st @
                  [r3d_draw_group_zero\<lparr>group_transform := transform\<rparr>],
               draw_calls := draw_calls st @
                  [(\<lparr>call_material = dflt, call_mesh = m\<rparr>, False, length (draw_groups st))]\<rparr>))
   \<and> (HAS (layers st) (layerMask m) \<and> instanceCount \<noteq> 0 \<longrightarrow>
      R3D_DrawMeshInstancedPro HAS dflt (Some m) None globalAabb transform
          (Some ts) tstride cols cstride instanceCount st =
        Inr (st\<lparr>draw_groups := draw_groups st @
                  [r3d_draw_group_zero
                     \<lparr>group_transform := transform,
                      instanced :=
                        \<lparr>allAabb = (case globalAabb of Some bb \<Rightarrow> bb | None \<Rightarrow> BoundingBox_zero),
                         transforms = Some ts, transStride = tstride, colStride = cstride,
                         colors = cols, inst_count = instanceCount\<rparr>\<rparr>],
               draw_calls := draw_calls st @
                  [(\<lparr>call_material = dflt, call_mesh = m\<rparr>, False, length (draw_groups st))]\<rparr>))
   \<and> (instanceCount = 0 \<or> instanceTransforms = None \<longrightarrow>
      R3D_DrawMeshInstancedPro HAS dflt (Some m) material globalAabb transform
          instanceTransforms tstride cols cstride instanceCount st = Inr st
      \<and> R3D_DrawMeshInstanced HAS dflt ident (Some m) material instanceTransforms instanceCount st
          = Inr st)"
  by (simp add: R3D_DrawMesh_def R3D_DrawMeshInstancedPro_def R3D_DrawMeshInstanced_def Let_def
      draw_group_push_result)

theorem draw_mesh_null_arguments_witness:
  "\<not> layers_has_any (layers example_state) (layerMask (example_mesh 2))
   \<and> R3D_DrawMesh layers_has_any R3D_Material_zero (Some (example_mesh 2)) None [] example_state
       = Inr example_state
   \<and> layers_has_any (layers example_state) (layerMask (example_mesh 1))
   \<and> R3D_DrawMesh layers_has_any R3D_Material_zero (Some (example_mesh 1)) None [] example_state =
       Inr (example_state\<lparr>draw_groups := [r3d_draw_group_zero\<lparr>group_transform := []\<rparr>],
              draw_calls := [(\<lparr>call_material = R3D_Material_zero, call_mesh = example_mesh 1\<rparr>,
                              False, 0)]\<rparr>)
   \<and> R3D_DrawMeshInstancedPro layers_has_any R3D_Material_zero (Some (example_mesh 1)) None None []
        (Some [[]]) 0 None 0 1 example_state =
       Inr (example_state\<lparr>draw_groups :=
                [r3d_draw_group_zero
                   \<lparr>group_transform := [],
                    instanced := \<lparr>allAabb = BoundingBox_zero, transforms = Some [[]],
                         transStride = 0, colStride = 0, colors = None, inst_count = 1\<rparr>\<rparr>],
              draw_calls := [(\<lparr>call_material = R3D_Material_zero, call_mesh = example_mesh 1\<rparr>,
                              False, 0)]\<rparr>)
   \<and> R3D_DrawMeshInstancedPro layers_has_any R3D_Material_zero (Some (example_mesh 1))
        (Some R3D_Material_zero) None [] (Some [[]]) 0 None 0 0 example_state = Inr example_state
   \<and> R3D_DrawMeshInstancedPro layers_has_any R3D_Material_zero (Some (example_mesh 1))
        (Some R3D_Material_zero) None [] None 0 None 0 7 example_state = Inr example_state"
proof -
  have hid: "\<not> layers_has_any (layers example_state) (layerMask (example_mesh 2))"
    by (simp add: layers_has_any_def example_state_def example_mesh_def)
  have vis: "layers_has_any (layers example_state) (layerMask (example_mesh 1))"
    by (simp add: layers_has_any_def example_state_def example_mesh_def)
  have dg: "draw_groups example_state = []" "draw_calls example_state = []"
    by (simp_all add: example_state_def)
  show ?thesis
    using hid vis
      draw_mesh_null_arguments [where HAS = layers_has_any and st = example_state
        and m = "example_mesh 2" and dflt = R3D_Material_zero and material = "None"
        and transform = "[]" and globalAabb = None and instanceTransforms = "None"
        and tstride = 0 and cols = None and cstride = 0 and instanceCount = 1
        and ts = "[[]]" and ident = "[]"]
      draw_mesh_null_arguments [where HAS = layers_has_any and st = example_state
        and m = "example_mesh 1" and dflt = R3D_Material_zero and material = "Some R3D_Material_zero"
        and transform = "[]" and globalAabb = None and instanceTransforms = "Some [[]]"
        and tstride = 0 and cols = None and cstride = 0 and instanceCount = 0
        and ts = "[[]]" and ident = "[]"]
      draw_mesh_null_arguments [where HAS = layers_has_any and st = example_state
        and m = "example_mesh 1" and dflt = R3D_Material_zero and material = "Some R3D_Material_zero"
        and transform = "[]" and globalAabb = None and instanceTransforms = "None"
        and tstride = 0 and cols = None and cstride = 0 and instanceCount = 7
        and ts = "[[]]" and ident = "[]"]
      draw_mesh_null_arguments [where HAS = layers_has_any and st = example_state
        and m = "example_mesh 1" and dflt = R3D_Material_zero and material = "Some R3D_Material_zero"
        and transform = "[]" and globalAabb = None and instanceTransforms = "None"
        and tstride = 0 and cols = None and cstride = 0 and instanceCount = 1
        and ts = "[[]]" and ident = "[]"]
    by (simp add: dg)
qed

section \<open>Properties of the material parameters\<close>

subsection \<open>The search\<close>

lemma find_param_None_iff: "find_param ps n = None \<longleftrightarrow> (\<forall>p \<in> set ps. p_name p \<noteq> n)"
  by (induction ps) auto

lemma find_param_SomeD:
  "find_param ps n = Some i \<Longrightarrow>
     i < length ps \<and> p_name (ps ! i) = n \<and> (\<forall>j < i. p_name (ps ! j) \<noteq> n)"
proof (induction ps arbitrary: i)
  case Nil
  then show ?case by simp
next
  case (Cons p ps)
  show ?case
  proof (cases "p_name p = n")
    case True
    with Cons.prems show ?thesis by simp
  next
    case False
    with Cons.prems obtain k where k: "find_param ps n = Some k" "i = Suc k"
      by auto
    from Cons.IH [OF k(1)] False k(2) show ?thesis
      by (auto simp: less_Suc_eq_0_disj)
  qed
qed

lemma find_param_append_new:
  "find_param ps n = None \<Longrightarrow>
     find_param (ps @ [p]) n = (if p_name p = n then Some (length ps) else None)"
  by (induction ps) (auto split: if_splits)

lemma find_param_append_found:
  "find_param ps n = Some i \<Longrightarrow> find_param (ps @ qs) n = Some i"
  by (induction ps arbitrary: i) (auto split: if_splits)

lemma find_param_update_same_name:
  "i < length ps \<Longrightarrow> p_name q = p_name (ps ! i) \<Longrightarrow>
     find_param (ps[i := q]) n = find_param ps n"
proof (induction ps arbitrary: i)
  case Nil
  then show ?case by simp
next
  case (Cons p ps)
  then show ?case by (cases i) auto
qed

lemma filter_named_update:
  "i < length ps \<Longrightarrow> p_name q = p_name (ps ! i) \<Longrightarrow>
     length (filter (\<lambda>p. p_name p = n) (ps[i := q])) = length (filter (\<lambda>p. p_name p = n) ps)"
proof (induction ps arbitrary: i)
  case Nil
  then show ?case by simp
next
  case (Cons p ps)
  then show ?case by (cases i) auto
qed

lemma filter_named_none:
  "find_param ps n = None \<Longrightarrow> filter (\<lambda>p. p_name p = n) ps = []"
  by (simp add: find_param_None_iff filter_empty_conv)

lemma filter_named_some:
  "find_param ps n = Some i \<Longrightarrow> 0 < length (filter (\<lambda>p. p_name p = n) ps)"
proof -
  assume "find_param ps n = Some i"
  then have "i < length ps" "p_name (ps ! i) = n"
    by (auto dest: find_param_SomeD)
  then have "ps ! i \<in> set (filter (\<lambda>p. p_name p = n) ps)" by simp
  then show ?thesis by (rule length_pos_if_in_set)
qed

subsection \<open>FindOrCreateParam on a material that is in order\<close>

lemma params_of_simps [simp]:
  "params m = None \<Longrightarrow> params_of m = []"
  "params m = Some ps \<Longrightarrow> params_of m = ps"
  by (simp_all add: params_of_def)

lemma material_ok_count: "material_ok m \<Longrightarrow> paramCount m = int (length (params_of m))"
  by (auto simp: material_ok_def split: option.splits)

lemma FindOrCreateParam_found:
  assumes "material_ok m" and "find_param (params_of m) n = Some i"
  shows "FindOrCreateParam m n ty = Inr (m, i)"
proof (cases "params m")
  case None
  with assms(2) show ?thesis by simp
next
  case (Some ps)
  with assms(1) have "paramCount m = int (length ps)"
    by (simp add: material_ok_def)
  then have "take (nat (paramCount m)) ps = ps"
    by simp
  with Some assms(2) show ?thesis
    by (simp add: FindOrCreateParam_def)
qed

lemma FindOrCreateParam_new:
  assumes "material_ok m" and "find_param (params_of m) n = None" and "can_grow m"
  shows "FindOrCreateParam m n ty =
           Inr (m\<lparr>paramCapacity :=
                     (if params m = None then 4
                      else if paramCapacity m \<le> paramCount m then paramCapacity m * 2
                      else paramCapacity m),
                   params := Some (params_of m @ [new_param n ty]),
                   paramCount := paramCount m + 1\<rparr>,
                length (params_of m))"
proof (cases "params m")
  case None
  with assms(1) show ?thesis
    by (simp add: FindOrCreateParam_def add_param_def material_ok_def INT_MAX_def)
next
  case (Some ps)
  with assms(1) have ok: "paramCount m = int (length ps)" "paramCount m \<le> paramCapacity m"
      "0 < paramCapacity m" "paramCapacity m \<le> INT_MAX"
    by (simp_all add: material_ok_def)
  then have tk: "take (nat (paramCount m)) ps = ps" "nat (paramCount m) = length ps"
    by simp_all
  show ?thesis
  proof (cases "paramCapacity m \<le> paramCount m")
    case True
    with assms(3) Some have dbl: "paramCapacity m * 2 \<le> INT_MAX"
      by (simp add: can_grow_def)
    have nonneg: "\<not> paramCapacity m * 2 < - INT_MAX - 1"
      using ok(3) by (simp add: INT_MAX_def)
    have idx: "\<not> INT_MAX \<le> int (length ps)"
      using dbl ok by simp
    from True Some assms(2) ok tk dbl nonneg idx show ?thesis
      by (simp add: FindOrCreateParam_def add_param_def Let_def)
  next
    case False
    then have idx: "\<not> INT_MAX \<le> int (length ps)"
      using ok by simp
    from False Some assms(2) ok tk idx show ?thesis
      by (simp add: FindOrCreateParam_def add_param_def Let_def)
  qed
qed

text \<open>A full array of \<open>2^30\<close> entries or more cannot be doubled.\<close>

lemma FindOrCreateParam_overflow:
  assumes "material_ok m" and "find_param (params_of m) n = None" and "\<not> can_grow m"
  shows "FindOrCreateParam m n ty = Inl IntOverflow"
proof -
  from assms(3) obtain ps where ps: "params m = Some ps"
    and full: "paramCapacity m \<le> paramCount m" and big: "INT_MAX < paramCapacity m * 2"
    by (cases "params m") (auto simp: can_grow_def)
  from assms(1) ps have cnt: "paramCount m = int (length ps)"
    by (simp add: material_ok_def)
  then have tk: "take (nat (paramCount m)) ps = ps" by simp
  have le: "\<not> int (length ps) < paramCount m" using cnt by simp
  from ps assms(2) full big tk le show ?thesis
    by (simp add: FindOrCreateParam_def)
qed

lemma arg_write_funs:
  "arg_write (Arg_Float v) = (\<lambda>u. u\<lparr>w0 := v\<rparr>)"
  "arg_write (Arg_Vec2 v2) = (\<lambda>u. case v2 of Vector2 vx vy \<Rightarrow> u\<lparr>w0 := vx, w1 := vy\<rparr>)"
  "arg_write (Arg_Vec3 v3) =
     (\<lambda>u. case v3 of Vector3 vx vy vz \<Rightarrow> u\<lparr>w0 := vx, w1 := vy, w2 := vz\<rparr>)"
  "arg_write (Arg_Vec4 v4) =
     (\<lambda>u. case v4 of Vector4 vx vy vz vw \<Rightarrow> u\<lparr>w0 := vx, w1 := vy, w2 := vz, w3 := vw\<rparr>)"
  "arg_write (Arg_Texture t) =
     (\<lambda>u. \<lparr>w0 = tex_id t, w1 = tex_width t, w2 = tex_height t, w3 = tex_mipmaps t,
          w4 = tex_format t\<rparr>)"
proof -
  show "arg_write (Arg_Float v) = (\<lambda>u. u\<lparr>w0 := v\<rparr>)"
    by (simp add: fun_eq_iff)
  show "arg_write (Arg_Vec2 v2) = (\<lambda>u. case v2 of Vector2 vx vy \<Rightarrow> u\<lparr>w0 := vx, w1 := vy\<rparr>)"
    by (cases v2) (simp add: fun_eq_iff)
  show "arg_write (Arg_Vec3 v3) =
     (\<lambda>u. case v3 of Vector3 vx vy vz \<Rightarrow> u\<lparr>w0 := vx, w1 := vy, w2 := vz\<rparr>)"
    by (cases v3) (simp add: fun_eq_iff)
  show "arg_write (Arg_Vec4 v4) =
     (\<lambda>u. case v4 of Vector4 vx vy vz vw \<Rightarrow> u\<lparr>w0 := vx, w1 := vy, w2 := vz, w3 := vw\<rparr>)"
    by (cases v4) (simp add: fun_eq_iff)
  show "arg_write (Arg_Texture t) =
     (\<lambda>u. \<lparr>w0 = tex_id t, w1 = tex_width t, w2 = tex_height t, w3 = tex_mipmaps t,
          w4 = tex_format t\<rparr>)"
    by (simp add: fun_eq_iff)
qed

lemma R3D_SetMaterial_eq:
  "R3D_SetMaterial (Some m) (Some n) a =
     (case FindOrCreateParam m n (arg_type a) of
        Inl e \<Rightarrow> Inl e
      | Inr (m', i) \<Rightarrow> Inr (Some (set_param_value m' i (arg_write a))))"
  by (cases a)
    (auto simp: R3D_SetMaterial_def R3D_SetMaterialFloat_def R3D_SetMaterialVec2_def
      R3D_SetMaterialVec3_def R3D_SetMaterialVec4_def R3D_SetMaterialTexture_def
      arg_write_funs split: sum.splits)

lemma holds_arg_write: "holds_arg (arg_write a u) a"
proof (cases a)
  case (Arg_Vec2 v)
  then show ?thesis by (cases v) simp
next
  case (Arg_Vec3 v)
  then show ?thesis by (cases v) simp
next
  case (Arg_Vec4 v)
  then show ?thesis by (cases v) simp
qed simp_all

text \<open>The setter on a material that has a parameter stored under the name.\<close>

lemma R3D_SetMaterial_found:
  assumes "material_ok m" and "find_param (params_of m) n = Some i"
  shows "R3D_SetMaterial (Some m) (Some n) a =
           Inr (Some (m\<lparr>params := Some ((params_of m)
                  [i := (params_of m ! i)\<lparr>p_value := arg_write a (p_value (params_of m ! i))\<rparr>])\<rparr>))"
proof -
  from assms(2) obtain ps where ps: "params m = Some ps"
    by (cases "params m") auto
  show ?thesis
    using ps by (simp add: R3D_SetMaterial_eq FindOrCreateParam_found [OF assms] set_param_value_def)
qed

text \<open>The setter on a material that has no parameter stored under the name.\<close>

lemma R3D_SetMaterial_new:
  assumes "material_ok m" and "find_param (params_of m) n = None" and "can_grow m"
  shows "R3D_SetMaterial (Some m) (Some n) a =
           Inr (Some (m\<lparr>paramCapacity :=
                     (if params m = None then 4
                      else if paramCapacity m \<le> paramCount m then paramCapacity m * 2
                      else paramCapacity m),
                   params := Some (params_of m @
                     [\<lparr>p_name = take (R3D_MAX_UNIFORM_NAME_LENGTH - 1) n, p_type = arg_type a,
                       p_value = arg_write a param_value_zero\<rparr>]),
                   paramCount := paramCount m + 1\<rparr>))"
  by (simp add: R3D_SetMaterial_eq FindOrCreateParam_new [OF assms] set_param_value_def
      new_param_def)

lemma material_ok_after_found:
  "material_ok m \<Longrightarrow> i < length (params_of m) \<Longrightarrow>
     material_ok (m\<lparr>params := Some ((params_of m)[i := q])\<rparr>)"
  by (cases "params m") (simp_all add: material_ok_def)

lemma material_ok_after_new:
  assumes "material_ok m" and "can_grow m"
  shows "material_ok (m\<lparr>paramCapacity :=
                     (if params m = None then 4
                      else if paramCapacity m \<le> paramCount m then paramCapacity m * 2
                      else paramCapacity m),
                   params := Some (params_of m @ [q]),
                   paramCount := paramCount m + 1\<rparr>)"
proof (cases "params m")
  case None
  with assms(1) show ?thesis by (simp add: material_ok_def INT_MAX_def)
next
  case (Some ps)
  with assms show ?thesis by (auto simp: material_ok_def can_grow_def)
qed

lemma can_grow_zero: "can_grow R3D_Material_zero"
  by (simp add: can_grow_def R3D_Material_zero_def)

lemma can_grow_small: "paramCapacity m \<le> 1073741823 \<Longrightarrow> can_grow m"
  by (simp add: can_grow_def INT_MAX_def)

subsection \<open>Binding\<close>

lemma bind_uniform_ok:
  assumes "material_ok m"
  shows "bind_uniform m info = Inr (bind_calls m info)"
proof (cases "params m")
  case None
  with assms show ?thesis
    by (simp add: bind_uniform_def bind_calls_def material_ok_def)
next
  case (Some ps)
  with assms have "paramCount m = int (length ps)"
    by (simp add: material_ok_def)
  with Some show ?thesis
    by (simp add: bind_uniform_def bind_calls_def split: option.splits)
qed

lemma bind_loop_ok:
  "material_ok m \<Longrightarrow> bind_loop m us = Inr (concat (map (bind_calls m) us))"
  by (induction us) (simp_all add: bind_uniform_ok)

lemma R3D_BindCustomUniforms_ok:
  "material_ok m \<Longrightarrow> customUniformCount sh \<le> length (customUniforms sh) \<Longrightarrow>
     R3D_BindCustomUniforms (Some sh) (Some m) =
       Inr (concat (map (bind_calls m) (take (customUniformCount sh) (customUniforms sh))))"
  by (simp add: R3D_BindCustomUniforms_def bind_loop_ok)

lemma find_param_retag:
  "find_param (map (\<lambda>p. p\<lparr>p_type := f p\<rparr>) ps) n = find_param ps n"
  by (induction ps) simp_all

lemma bind_param_retag: "bind_param info (p\<lparr>p_type := t\<rparr>) = bind_param info p"
  by (simp add: bind_param_def)

lemma bind_uniform_retag: "bind_uniform (retag f m) info = bind_uniform m info"
proof (cases "params m")
  case None
  then show ?thesis by (simp add: bind_uniform_def retag_def)
next
  case (Some ps)
  let ?n = "nat (paramCount m)"
  have tk: "take ?n (map (\<lambda>p. p\<lparr>p_type := f p\<rparr>) ps) = map (\<lambda>p. p\<lparr>p_type := f p\<rparr>) (take ?n ps)"
    by (simp add: take_map)
  show ?thesis
  proof (cases "find_param (take ?n ps) (u_name info)")
    case None
    with Some show ?thesis
      by (simp add: bind_uniform_def retag_def tk find_param_retag)
  next
    case (Some j)
    then have "j < length (take ?n ps)"
      by (auto dest: find_param_SomeD)
    then have "j < length ps" by simp
    with Some \<open>params m = Some ps\<close> show ?thesis
      by (simp add: bind_uniform_def retag_def tk find_param_retag bind_param_retag)
  qed
qed

lemma bind_loop_retag: "bind_loop (retag f m) us = bind_loop m us"
  by (induction us) (simp_all add: bind_uniform_retag split: sum.splits)


subsection \<open>The claims on setting and binding parameters\<close>

lemma one_uniform_shader_fields:
  "customUniformCount (one_uniform_shader n ty loc slot) = 1"
  "take (Suc 0) (customUniforms (one_uniform_shader n ty loc slot)) =
     [\<lparr>u_name = n, u_location = loc, u_type = ty, u_texSlot = slot\<rparr>]"
  "length (customUniforms (one_uniform_shader n ty loc slot)) = 16"
  by (simp_all add: one_uniform_shader_def R3D_Shader_zero_def R3D_MAX_CUSTOM_UNIFORMS_def
      take_Suc_conv_app_nth)

lemma R3D_Material_zero_ok: "material_ok R3D_Material_zero"
  by (simp add: material_ok_def R3D_Material_zero_def)

lemma R3D_Material_zero_params [simp]:
  "params R3D_Material_zero = None" "paramCount R3D_Material_zero = 0"
  "params_of R3D_Material_zero = []"
  by (simp_all add: R3D_Material_zero_def params_of_def)

text \<open>
  Claim C2, as stated, fails. The shader declares \<open>x\<close> as a vec3 at location 7; the
  material holds a parameter \<open>x\<close> that was set as a float. Binding does not ignore the
  parameter: it sends the parameter's first three words to \<open>glUniform3fv\<close>.
\<close>

theorem bind_type_mismatch_counterexample:
  "(case R3D_SetMaterialFloat (Some R3D_Material_zero) (Some ''x'') f1 of
      Inl e \<Rightarrow> Inl e
    | Inr m \<Rightarrow> R3D_BindCustomUniforms (Some (one_uniform_shader ''x'' R3D_PARAM_VEC3 7 (- 1))) m)
   = Inr [GlUniform3fv 7 [f1, 0, 0]]"
proof -
  have new: "find_param (params_of R3D_Material_zero) ''x'' = None" by simp
  have set: "R3D_SetMaterialFloat (Some R3D_Material_zero) (Some ''x'') f1 =
     Inr (Some (R3D_Material_zero\<lparr>paramCapacity := 4,
        params := Some [\<lparr>p_name = ''x'', p_type = R3D_PARAM_FLOAT,
                         p_value = param_value_zero\<lparr>w0 := f1\<rparr>\<rparr>],
        paramCount := 1\<rparr>))"
    using R3D_SetMaterial_new [OF R3D_Material_zero_ok new can_grow_zero, of "Arg_Float f1"]
    by (simp add: R3D_SetMaterial_def R3D_MAX_UNIFORM_NAME_LENGTH_def)
  show ?thesis
    by (simp add: set R3D_BindCustomUniforms_def one_uniform_shader_fields bind_uniform_def
        bind_param_def param_value_zero_def)
qed

lemma bind_calls_explicit:
  "bind_calls m =
     (\<lambda>info. case find_param (params_of m) (u_name info) of
        None \<Rightarrow> []
      | Some j \<Rightarrow>
          (case u_type info of
             R3D_PARAM_FLOAT \<Rightarrow>
               [GlUniform1f (u_location info) (w0 (p_value (params_of m ! j)))]
           | R3D_PARAM_VEC2 \<Rightarrow>
               [GlUniform2fv (u_location info)
                  [w0 (p_value (params_of m ! j)), w1 (p_value (params_of m ! j))]]
           | R3D_PARAM_VEC3 \<Rightarrow>
               [GlUniform3fv (u_location info)
                  [w0 (p_value (params_of m ! j)), w1 (p_value (params_of m ! j)),
                   w2 (p_value (params_of m ! j))]]
           | R3D_PARAM_VEC4 \<Rightarrow>
               [GlUniform4fv (u_location info)
                  [w0 (p_value (params_of m ! j)), w1 (p_value (params_of m ! j)),
                   w2 (p_value (params_of m ! j)), w3 (p_value (params_of m ! j))]]
           | R3D_PARAM_TEX2D \<Rightarrow>
               [GlActiveTexture_TEXTURE0_plus (u_texSlot info),
                GlBindTexture_2D (w0 (p_value (params_of m ! j)))]))"
  by (rule ext)
    (simp add: bind_calls_def bind_param_def Let_def split: option.splits R3D_ParamType.splits)

lemma bind_param_not_Nil: "bind_param info p \<noteq> []"
  by (cases "u_type info") (simp_all add: bind_param_def Let_def)

lemma example_material_fields:
  "material_ok example_material"
  "can_grow example_material"
  "params_of example_material =
     [\<lparr>p_name = ''x'', p_type = R3D_PARAM_FLOAT, p_value = param_value_zero\<lparr>w0 := f1\<rparr>\<rparr>]"
  "paramCount example_material = 1"
  by (simp_all add: example_material_def material_ok_def can_grow_def INT_MAX_def)

text \<open>
  Claim C2, amended. Take a material and a shader table that are in order. The bind path
  never reads the type tag of a parameter and raises no error. For each registered
  uniform, in order, it looks for the first parameter stored under the uniform's name;
  when there is one it issues the command that the type of the uniform selects
  (\<open>glUniform1f\<close>, \<open>glUniform2fv\<close>, \<open>glUniform3fv\<close>, \<open>glUniform4fv\<close>, or the
  activation of the uniform's texture slot and the texture bind), reading the value
  storage of the parameter as that type; when there is none it issues nothing. Changing
  the tags of the parameters in any way changes nothing, and a parameter whose tag
  differs from the type of the uniform is bound like any other: the commands for its
  uniform are not empty.
\<close>

theorem bind_ignores_type_tags:
  assumes "material_ok m" and "customUniformCount sh \<le> length (customUniforms sh)"
  shows "R3D_BindCustomUniforms (Some sh) (Some m) =
           Inr (concat (map
             (\<lambda>info. case find_param (params_of m) (u_name info) of
                None \<Rightarrow> []
              | Some j \<Rightarrow>
                  (case u_type info of
                     R3D_PARAM_FLOAT \<Rightarrow>
                       [GlUniform1f (u_location info) (w0 (p_value (params_of m ! j)))]
                   | R3D_PARAM_VEC2 \<Rightarrow>
                       [GlUniform2fv (u_location info)
                          [w0 (p_value (params_of m ! j)), w1 (p_value (params_of m ! j))]]
                   | R3D_PARAM_VEC3 \<Rightarrow>
                       [GlUniform3fv (u_location info)
                          [w0 (p_value (params_of m ! j)), w1 (p_value (params_of m ! j)),
                           w2 (p_value (params_of m ! j))]]
                   | R3D_PARAM_VEC4 \<Rightarrow>
                       [GlUniform4fv (u_location info)
                          [w0 (p_value (params_of m ! j)), w1 (p_value (params_of m ! j)),
                           w2 (p_value (params_of m ! j)), w3 (p_value (params_of m ! j))]]
                   | R3D_PARAM_TEX2D \<Rightarrow>
                       [GlActiveTexture_TEXTURE0_plus (u_texSlot info),
                        GlBindTexture_2D (w0 (p_value (params_of m ! j)))]))
             (take (customUniformCount sh) (customUniforms sh))))
       \<and> R3D_BindCustomUniforms (Some sh) (Some (retag f m)) =
           R3D_BindCustomUniforms (Some sh) (Some m)
       \<and> (\<forall>info j. find_param (params_of m) (u_name info) = Some j
              \<and> p_type (params_of m ! j) \<noteq> u_type info \<longrightarrow>
              (\<exists>c cs. bind_uniform m info = Inr (c # cs)))"
proof -
  have a: "R3D_BindCustomUniforms (Some sh) (Some m) =
             Inr (concat (map (bind_calls m) (take (customUniformCount sh) (customUniforms sh))))"
    using assms by (rule R3D_BindCustomUniforms_ok)
  have b: "R3D_BindCustomUniforms (Some sh) (Some (retag f m)) =
             R3D_BindCustomUniforms (Some sh) (Some m)"
    by (simp add: R3D_BindCustomUniforms_def bind_loop_retag)
  have c: "\<exists>c cs. bind_uniform m info = Inr (c # cs)"
    if "find_param (params_of m) (u_name info) = Some j" for info j
  proof -
    have "bind_uniform m info = Inr (bind_param info (params_of m ! j))"
      using that by (simp add: bind_uniform_ok [OF assms(1)] bind_calls_def)
    moreover obtain c cs where "bind_param info (params_of m ! j) = c # cs"
      using bind_param_not_Nil [of info "params_of m ! j"]
      by (cases "bind_param info (params_of m ! j)") auto
    ultimately show ?thesis by simp
  qed
  from a [unfolded bind_calls_explicit] b c show ?thesis by blast
qed

theorem bind_ignores_type_tags_witness:
  "material_ok example_material
   \<and> customUniformCount (one_uniform_shader ''x'' R3D_PARAM_VEC3 7 (- 1))
       \<le> length (customUniforms (one_uniform_shader ''x'' R3D_PARAM_VEC3 7 (- 1)))
   \<and> map p_name (params_of example_material) = [''x'']
   \<and> map p_type (params_of example_material) = [R3D_PARAM_FLOAT]
   \<and> map u_name (take (customUniformCount (one_uniform_shader ''x'' R3D_PARAM_VEC3 7 (- 1)))
                      (customUniforms (one_uniform_shader ''x'' R3D_PARAM_VEC3 7 (- 1))))
       = [''x'']
   \<and> map u_type (take (customUniformCount (one_uniform_shader ''x'' R3D_PARAM_VEC3 7 (- 1)))
                      (customUniforms (one_uniform_shader ''x'' R3D_PARAM_VEC3 7 (- 1))))
       = [R3D_PARAM_VEC3]
   \<and> R3D_BindCustomUniforms (Some (one_uniform_shader ''x'' R3D_PARAM_VEC3 7 (- 1)))
        (Some example_material) = Inr [GlUniform3fv 7 [f1, 0, 0]]"
proof -
  let ?sh = "one_uniform_shader ''x'' R3D_PARAM_VEC3 7 (- 1)"
  have h1: "material_ok example_material" by (rule example_material_fields)
  have h2: "customUniformCount ?sh \<le> length (customUniforms ?sh)"
    by (simp add: one_uniform_shader_fields)
  from bind_ignores_type_tags [OF h1 h2]
  have "R3D_BindCustomUniforms (Some ?sh) (Some example_material) =
          Inr [GlUniform3fv 7 [f1, 0, 0]]"
    by (simp add: one_uniform_shader_fields example_material_fields param_value_zero_def)
  with h1 h2 show ?thesis
    by (simp add: one_uniform_shader_fields example_material_fields)
qed

text \<open>
  Claim C6: the code at the failing input. A parameter \<open>x\<close> is set as a float and then
  as a vec3. The second call finds the parameter and writes the three floats, and the
  type tag is still \<open>R3D_PARAM_FLOAT\<close>.
\<close>

theorem set_existing_keeps_old_type:
  "(case R3D_SetMaterialFloat (Some R3D_Material_zero) (Some ''x'') f1 of
      Inl e \<Rightarrow> Inl e
    | Inr m \<Rightarrow> R3D_SetMaterialVec3 m (Some ''x'') (Vector3 f4 f5 f6))
   = Inr (Some (R3D_Material_zero\<lparr>paramCapacity := 4,
        params := Some [\<lparr>p_name = ''x'', p_type = R3D_PARAM_FLOAT,
                         p_value = \<lparr>w0 = f4, w1 = f5, w2 = f6, w3 = 0, w4 = 0\<rparr>\<rparr>],
        paramCount := 1\<rparr>))"
proof -
  have new: "find_param (params_of R3D_Material_zero) ''x'' = None" by simp
  let ?m = "R3D_Material_zero\<lparr>paramCapacity := 4,
        params := Some [\<lparr>p_name = ''x'', p_type = R3D_PARAM_FLOAT,
                         p_value = param_value_zero\<lparr>w0 := f1\<rparr>\<rparr>],
        paramCount := 1\<rparr>"
  have set: "R3D_SetMaterialFloat (Some R3D_Material_zero) (Some ''x'') f1 = Inr (Some ?m)"
    using R3D_SetMaterial_new [OF R3D_Material_zero_ok new can_grow_zero, of "Arg_Float f1"]
    by (simp add: R3D_SetMaterial_def R3D_MAX_UNIFORM_NAME_LENGTH_def)
  have ok: "material_ok ?m" by (simp add: material_ok_def INT_MAX_def)
  have grow: "can_grow ?m" by (simp add: can_grow_def)
  have found: "find_param (params_of ?m) ''x'' = Some 0" by simp
  show ?thesis
    using R3D_SetMaterial_found [OF ok found, of "Arg_Vec3 (Vector3 f4 f5 f6)"]
    by (simp add: set R3D_SetMaterial_def param_value_zero_def)
qed

text \<open>
  What does hold of every setter, on a material that is in order and can take one more
  parameter: the call succeeds, the parameter it found or appended holds the value
  afterwards, and a parameter that it appended has the setter's type tag.
\<close>

lemma setter_leaves_value:
  assumes "material_ok m" and "can_grow m"
  shows "\<exists>m' i. R3D_SetMaterial (Some m) (Some n) a = Inr (Some m')
           \<and> (\<exists>m0. FindOrCreateParam m n (arg_type a) = Inr (m0, i))
           \<and> i < length (params_of m')
           \<and> holds_arg (p_value (params_of m' ! i)) a
           \<and> (find_param (params_of m) n = None \<longrightarrow> p_type (params_of m' ! i) = arg_type a)
           \<and> (find_param (params_of m) n \<noteq> None \<longrightarrow>
                 p_type (params_of m' ! i) = p_type (params_of m ! i))"
proof (cases "find_param (params_of m) n")
  case None
  show ?thesis
    using None
    by (simp add: R3D_SetMaterial_new [OF assms(1) None assms(2)]
        FindOrCreateParam_new [OF assms(1) None assms(2)] holds_arg_write new_param_def)
next
  case (Some i)
  then have i: "i < length (params_of m)" by (auto dest: find_param_SomeD)
  then obtain ps where ps: "params m = Some ps" by (cases "params m") auto
  show ?thesis
    using Some i ps
    by (simp add: R3D_SetMaterial_found [OF assms(1) Some]
        FindOrCreateParam_found [OF assms(1) Some] holds_arg_write)
qed

lemma replicate_neq_Cons: "c \<noteq> d \<Longrightarrow> 0 < k \<Longrightarrow> replicate k c \<noteq> d # xs"
  by (cases k) auto

lemma long_name_not_skipped: "\<not> skipped_uniform long_name"
  by (simp add: skipped_uniform_def long_name_def builtinUniforms_def replicate_neq_Cons)

lemma long_name_facts:
  "length long_name = 64"
  "take (R3D_MAX_UNIFORM_NAME_LENGTH - Suc 0) long_name = replicate 63 (CHR ''a'')"
  "replicate 63 (CHR ''a'') \<noteq> long_name"
  by (simp_all add: long_name_def R3D_MAX_UNIFORM_NAME_LENGTH_def)

text \<open>
  Claim C7: the code at the failing input, a name of 64 characters set twice on an empty
  material. The first call stores the name cut to 63 characters. The search of the second
  call compares the stored name with the whole name, finds nothing, and the call appends
  a second parameter: the parameter count is two, and the first parameter still holds the
  first value.
\<close>

theorem set_float_twice_long_name_appends:
  "(case R3D_SetMaterialFloat (Some R3D_Material_zero) (Some long_name) f1 of
      Inl e \<Rightarrow> Inl e
    | Inr m \<Rightarrow> R3D_SetMaterialFloat m (Some long_name) f2)
   = Inr (Some (R3D_Material_zero\<lparr>paramCapacity := 4,
        params := Some [\<lparr>p_name = replicate 63 (CHR ''a''), p_type = R3D_PARAM_FLOAT,
                         p_value = param_value_zero\<lparr>w0 := f1\<rparr>\<rparr>,
                        \<lparr>p_name = replicate 63 (CHR ''a''), p_type = R3D_PARAM_FLOAT,
                         p_value = param_value_zero\<lparr>w0 := f2\<rparr>\<rparr>],
        paramCount := 2\<rparr>))"
proof -
  have new: "find_param (params_of R3D_Material_zero) long_name = None" by simp
  let ?m = "R3D_Material_zero\<lparr>paramCapacity := 4,
        params := Some [\<lparr>p_name = replicate 63 (CHR ''a''), p_type = R3D_PARAM_FLOAT,
                         p_value = param_value_zero\<lparr>w0 := f1\<rparr>\<rparr>],
        paramCount := 1\<rparr>"
  have set: "R3D_SetMaterialFloat (Some R3D_Material_zero) (Some long_name) f1 = Inr (Some ?m)"
    using R3D_SetMaterial_new [OF R3D_Material_zero_ok new can_grow_zero, of "Arg_Float f1"]
    by (simp add: R3D_SetMaterial_def long_name_facts)
  have ok: "material_ok ?m" by (simp add: material_ok_def INT_MAX_def)
  have grow: "can_grow ?m" by (simp add: can_grow_def)
  have new2: "find_param (params_of ?m) long_name = None"
    by (simp add: long_name_facts)
  show ?thesis
    using R3D_SetMaterial_new [OF ok new2 grow, of "Arg_Float f2"]
    by (simp add: set R3D_SetMaterial_def long_name_facts)
qed

lemma count_named_one_unique:
  assumes "length (filter (\<lambda>p. p_name p = n) ps) = 1" and "i < length ps"
    and "p_name (ps ! i) = n" and "q \<in> set ps" and "p_name q = n"
  shows "q = ps ! i"
proof -
  from assms(1) obtain x where x: "filter (\<lambda>p. p_name p = n) ps = [x]"
    by (cases "filter (\<lambda>p. p_name p = n) ps") auto
  have "ps ! i \<in> set (filter (\<lambda>p. p_name p = n) ps)"
    using assms(2,3) by simp
  moreover have "q \<in> set (filter (\<lambda>p. p_name p = n) ps)"
    using assms(4,5) by simp
  ultimately show ?thesis by (simp add: x)
qed

text \<open>
  Where the search does find the stored name, that is for a name of at most 63
  characters, two calls in a row behave as find-or-create: on a material that is in
  order, can take one more parameter and holds at most one parameter under the name,
  both calls succeed, the material then holds exactly one parameter under the name, the
  parameter count has grown by at most one, and the float of that parameter is the
  second value.
\<close>

lemma set_float_twice_short_name:
  assumes "material_ok m" and "length n < R3D_MAX_UNIFORM_NAME_LENGTH"
    and "count_named m n \<le> 1" and "can_grow m"
  shows "\<exists>m1 m2. R3D_SetMaterialFloat (Some m) (Some n) v1 = Inr (Some m1)
           \<and> R3D_SetMaterialFloat (Some m1) (Some n) v2 = Inr (Some m2)
           \<and> count_named m2 n = 1
           \<and> paramCount m2 \<le> paramCount m + 1
           \<and> paramCount m2 = int (length (params_of m2))
           \<and> (\<forall>p \<in> set (params_of m2). p_name p = n \<longrightarrow> w0 (p_value p) = v2)"
proof (cases "find_param (params_of m) n")
  case None
  have tk: "take (R3D_MAX_UNIFORM_NAME_LENGTH - Suc 0) n = n"
    using assms(2) by simp
  let ?q1 = "\<lparr>p_name = n, p_type = R3D_PARAM_FLOAT, p_value = param_value_zero\<lparr>w0 := v1\<rparr>\<rparr>"
  let ?m1 = "m\<lparr>paramCapacity :=
                 (if params m = None then 4
                  else if paramCapacity m \<le> paramCount m then paramCapacity m * 2
                  else paramCapacity m),
               params := Some (params_of m @ [?q1]),
               paramCount := paramCount m + 1\<rparr>"
  have s1: "R3D_SetMaterialFloat (Some m) (Some n) v1 = Inr (Some ?m1)"
    using R3D_SetMaterial_new [OF assms(1) None assms(4), of "Arg_Float v1"]
    by (simp add: R3D_SetMaterial_def tk)
  have ok1: "material_ok ?m1"
    using assms(1,4) by (rule material_ok_after_new)
  have f1: "find_param (params_of ?m1) n = Some (length (params_of m))"
    using None by (simp add: find_param_append_new)
  let ?m2 = "?m1\<lparr>params := Some ((params_of ?m1)
       [length (params_of m) := (params_of ?m1 ! length (params_of m))
          \<lparr>p_value := arg_write (Arg_Float v2) (p_value (params_of ?m1 ! length (params_of m)))\<rparr>])\<rparr>"
  have s2: "R3D_SetMaterialFloat (Some ?m1) (Some n) v2 = Inr (Some ?m2)"
    using R3D_SetMaterial_found [OF ok1 f1, of "Arg_Float v2"]
    by (simp add: R3D_SetMaterial_def)
  have p2: "params_of ?m2 = params_of m @ [?q1\<lparr>p_value := param_value_zero\<lparr>w0 := v2\<rparr>\<rparr>]"
    by (simp add: param_value_zero_def)
  have none: "\<forall>p \<in> set (params_of m). p_name p \<noteq> n"
    using None by (simp add: find_param_None_iff)
  have c: "count_named ?m2 n = 1"
    unfolding count_named_def p2 using None by (simp add: filter_named_none)
  have v: "\<forall>p \<in> set (params_of ?m2). p_name p = n \<longrightarrow> w0 (p_value p) = v2"
    unfolding p2 using none by auto
  have cnt: "paramCount ?m2 = int (length (params_of ?m2))"
    unfolding p2 using material_ok_count [OF assms(1)] by simp
  have le: "paramCount ?m2 \<le> paramCount m + 1" by simp
  from s1 s2 c v cnt le show ?thesis by blast
next
  case (Some i)
  then have i: "i < length (params_of m)" "p_name (params_of m ! i) = n"
    by (auto dest: find_param_SomeD)
  let ?ps = "params_of m"
  let ?ps1 = "?ps[i := (?ps ! i)\<lparr>p_value := arg_write (Arg_Float v1) (p_value (?ps ! i))\<rparr>]"
  let ?m1 = "m\<lparr>params := Some ?ps1\<rparr>"
  have s1: "R3D_SetMaterialFloat (Some m) (Some n) v1 = Inr (Some ?m1)"
    using R3D_SetMaterial_found [OF assms(1) Some, of "Arg_Float v1"]
    by (simp add: R3D_SetMaterial_def)
  have ok1: "material_ok ?m1"
    using assms(1) i(1) by (rule material_ok_after_found)
  have f1: "find_param (params_of ?m1) n = Some i"
    using Some i by (simp add: find_param_update_same_name)
  let ?ps2 = "?ps1[i := (?ps1 ! i)\<lparr>p_value := arg_write (Arg_Float v2) (p_value (?ps1 ! i))\<rparr>]"
  let ?m2 = "?m1\<lparr>params := Some ?ps2\<rparr>"
  have s2: "R3D_SetMaterialFloat (Some ?m1) (Some n) v2 = Inr (Some ?m2)"
    using R3D_SetMaterial_found [OF ok1 f1, of "Arg_Float v2"]
    by (simp add: R3D_SetMaterial_def)
  let ?ps2' = "?ps[i := (?ps ! i)\<lparr>p_value := (p_value (?ps ! i))\<lparr>w0 := v2\<rparr>\<rparr>]"
  have p2: "params_of ?m2 = ?ps2'"
    using i(1) by simp
  have len: "length (filter (\<lambda>p. p_name p = n) ?ps2') =
               length (filter (\<lambda>p. p_name p = n) ?ps)"
    using i by (intro filter_named_update) simp_all
  have pos: "0 < length (filter (\<lambda>p. p_name p = n) ?ps)"
    using Some by (rule filter_named_some)
  have c0: "length (filter (\<lambda>p. p_name p = n) ?ps2') = 1"
    using assms(3) [unfolded count_named_def] len pos by linarith
  have c: "count_named ?m2 n = 1"
    unfolding count_named_def p2 by (rule c0)
  have at_i: "i < length (params_of ?m2)" "p_name (params_of ?m2 ! i) = n"
      "w0 (p_value (params_of ?m2 ! i)) = v2"
    unfolding p2 using i by simp_all
  have v: "\<forall>p \<in> set (params_of ?m2). p_name p = n \<longrightarrow> w0 (p_value p) = v2"
  proof (intro ballI impI)
    fix q assume q: "q \<in> set (params_of ?m2)" "p_name q = n"
    have "q = params_of ?m2 ! i"
      using c [unfolded count_named_def] at_i(1) at_i(2) q(1) q(2)
      by (rule count_named_one_unique)
    with at_i(3) show "w0 (p_value q) = v2" by (simp only:)
  qed
  have cnt: "paramCount ?m2 = int (length (params_of ?m2))"
    unfolding p2 using material_ok_count [OF assms(1)] by simp
  have le: "paramCount ?m2 \<le> paramCount m + 1" by simp
  from s1 s2 c v cnt le show ?thesis by blast
qed

text \<open>
  After a setter call with a name of at most 63 characters, the search for the name
  finds the parameter that holds the value.
\<close>

lemma setter_then_find:
  assumes "material_ok m" and "length n < R3D_MAX_UNIFORM_NAME_LENGTH" and "can_grow m"
  shows "\<exists>m' i. R3D_SetMaterial (Some m) (Some n) a = Inr (Some m') \<and> material_ok m'
           \<and> find_param (params_of m') n = Some i
           \<and> holds_arg (p_value (params_of m' ! i)) a"
proof (cases "find_param (params_of m) n")
  case None
  have tk: "take (R3D_MAX_UNIFORM_NAME_LENGTH - Suc 0) n = n"
    using assms(2) by simp
  let ?q = "\<lparr>p_name = n, p_type = arg_type a, p_value = arg_write a param_value_zero\<rparr>"
  let ?m' = "m\<lparr>paramCapacity :=
                 (if params m = None then 4
                  else if paramCapacity m \<le> paramCount m then paramCapacity m * 2
                  else paramCapacity m),
               params := Some (params_of m @ [?q]),
               paramCount := paramCount m + 1\<rparr>"
  have s: "R3D_SetMaterial (Some m) (Some n) a = Inr (Some ?m')"
    using R3D_SetMaterial_new [OF assms(1) None assms(3), of a] by (simp add: tk)
  have ok: "material_ok ?m'"
    using assms(1,3) by (rule material_ok_after_new)
  have f: "find_param (params_of ?m') n = Some (length (params_of m))"
    using None by (simp add: find_param_append_new)
  have h: "holds_arg (p_value (params_of ?m' ! length (params_of m))) a"
    by (simp add: holds_arg_write)
  from s ok f h show ?thesis by blast
next
  case (Some i)
  then have i: "i < length (params_of m)" "p_name (params_of m ! i) = n"
    by (auto dest: find_param_SomeD)
  let ?ps = "params_of m"
  let ?m' = "m\<lparr>params := Some (?ps[i := (?ps ! i)\<lparr>p_value := arg_write a (p_value (?ps ! i))\<rparr>])\<rparr>"
  have s: "R3D_SetMaterial (Some m) (Some n) a = Inr (Some ?m')"
    using assms(1) Some by (rule R3D_SetMaterial_found)
  have ok: "material_ok ?m'"
    using assms(1) i(1) by (rule material_ok_after_found)
  have f: "find_param (params_of ?m') n = Some i"
    using Some i by (simp add: find_param_update_same_name)
  have h: "holds_arg (p_value (params_of ?m' ! i)) a"
    using i(1) by (simp add: holds_arg_write)
  from s ok f h show ?thesis by blast
qed

text \<open>
  Claim C8: the code at the failing input, a vec3 uniform with a name of 64 characters.
  The material already holds a vector under the name, from an earlier
  \<open>R3D_SetMaterialVec3\<close>. The call under test does not find that parameter and appends a
  second one; binding, which compares the stored name with the registered name (both cut
  to 63 characters), takes the first one: \<open>glUniform3fv\<close> receives the floats of the
  earlier call, not those just set.
\<close>

theorem set_vec3_long_name_binds_old_value:
  "(case R3D_SetMaterialVec3 (Some R3D_Material_zero) (Some long_name) (Vector3 f1 f2 f3) of
      Inl e \<Rightarrow> Inl e
    | Inr m \<Rightarrow>
       (case R3D_SetMaterialVec3 m (Some long_name) (Vector3 f4 f5 f6) of
          Inl e \<Rightarrow> Inl e
        | Inr m' \<Rightarrow>
            R3D_BindCustomUniforms
              (Some (fst (discover_custom_uniforms (one_uniform_gl long_name GL_FLOAT_VEC3 7)
                            (R3D_Shader_zero\<lparr>program := 1\<rparr>)))) m'))
   = Inr [GlUniform3fv 7 [f1, f2, f3]]"
proof -
  have new: "find_param (params_of R3D_Material_zero) long_name = None" by simp
  let ?p1 = "\<lparr>p_name = replicate 63 (CHR ''a''), p_type = R3D_PARAM_VEC3,
             p_value = param_value_zero\<lparr>w0 := f1, w1 := f2, w2 := f3\<rparr>\<rparr>"
  let ?p2 = "\<lparr>p_name = replicate 63 (CHR ''a''), p_type = R3D_PARAM_VEC3,
             p_value = param_value_zero\<lparr>w0 := f4, w1 := f5, w2 := f6\<rparr>\<rparr>"
  let ?m = "R3D_Material_zero\<lparr>paramCapacity := 4, params := Some [?p1], paramCount := 1\<rparr>"
  let ?m' = "R3D_Material_zero\<lparr>paramCapacity := 4, params := Some [?p1, ?p2], paramCount := 2\<rparr>"
  have set: "R3D_SetMaterialVec3 (Some R3D_Material_zero) (Some long_name) (Vector3 f1 f2 f3)
               = Inr (Some ?m)"
    using R3D_SetMaterial_new [OF R3D_Material_zero_ok new can_grow_zero, of "Arg_Vec3 (Vector3 f1 f2 f3)"]
    by (simp add: R3D_SetMaterial_def long_name_facts)
  have ok: "material_ok ?m" by (simp add: material_ok_def INT_MAX_def)
  have grow: "can_grow ?m" by (simp add: can_grow_def)
  have new2: "find_param (params_of ?m) long_name = None"
    by (simp add: long_name_facts)
  have set2: "R3D_SetMaterialVec3 (Some ?m) (Some long_name) (Vector3 f4 f5 f6) = Inr (Some ?m')"
    using R3D_SetMaterial_new [OF ok new2 grow, of "Arg_Vec3 (Vector3 f4 f5 f6)"]
    by (simp add: R3D_SetMaterial_def long_name_facts)
  have skip: "\<not> skipped_uniform long_name"
    by (rule long_name_not_skipped)
  have tk: "take 255 long_name = long_name"
    by (simp add: long_name_def)
  have sh: "fst (discover_custom_uniforms (one_uniform_gl long_name GL_FLOAT_VEC3 7)
                   (R3D_Shader_zero\<lparr>program := 1\<rparr>))
            = one_uniform_shader (replicate 63 (CHR ''a'')) R3D_PARAM_VEC3 7 (- 1)"
    by (simp add: discover_custom_uniforms_def one_uniform_gl_def skip tk long_name_facts
        one_uniform_shader_def R3D_Shader_zero_def R3D_MAX_CUSTOM_UNIFORMS_def
        FIRST_CUSTOM_TEX_SLOT_def R3D_UniformInfo_zero_def)
  have bind: "R3D_BindCustomUniforms
                (Some (one_uniform_shader (replicate 63 (CHR ''a'')) R3D_PARAM_VEC3 7 (- 1)))
                (Some ?m') = Inr [GlUniform3fv 7 [f1, f2, f3]]"
    by (simp add: R3D_BindCustomUniforms_def one_uniform_shader_fields
        bind_uniform_def bind_param_def param_value_zero_def)
  show ?thesis
    by (simp only: set set2 sh bind sum.case)
qed

text \<open>
  Where the search does find the stored name, the round trip holds: for a name of at most
  63 characters, a material that is in order and can take one more parameter, and a
  shader table that holds, among its registered uniforms, a vec3 uniform under that name.
  After \<open>R3D_SetMaterialVec3\<close> binding succeeds, and what it issues for that uniform is
  one \<open>glUniform3fv\<close> at the uniform's location with the three floats of the vector, in
  the order x, y, z and bit for bit.
\<close>

lemma set_vec3_then_bind_short_name:
  assumes "material_ok m" and "length n < R3D_MAX_UNIFORM_NAME_LENGTH"
    and "customUniformCount sh \<le> length (customUniforms sh)"
    and "k < customUniformCount sh"
    and "u_name (customUniforms sh ! k) = n"
    and "u_type (customUniforms sh ! k) = R3D_PARAM_VEC3"
    and "can_grow m"
  shows "\<exists>m'. R3D_SetMaterialVec3 (Some m) (Some n) (Vector3 vx vy vz) = Inr (Some m')
           \<and> R3D_BindCustomUniforms (Some sh) (Some m') =
               Inr (concat (map (bind_calls m')
                       (take (customUniformCount sh) (customUniforms sh))))
           \<and> take (customUniformCount sh) (customUniforms sh) ! k = customUniforms sh ! k
           \<and> bind_calls m' (customUniforms sh ! k) =
               [GlUniform3fv (u_location (customUniforms sh ! k)) [vx, vy, vz]]"
proof -
  from setter_then_find [OF assms(1,2,7), of "Arg_Vec3 (Vector3 vx vy vz)"]
  obtain m' i where s: "R3D_SetMaterial (Some m) (Some n) (Arg_Vec3 (Vector3 vx vy vz)) = Inr (Some m')"
    and ok: "material_ok m'" and f: "find_param (params_of m') n = Some i"
    and h: "holds_arg (p_value (params_of m' ! i)) (Arg_Vec3 (Vector3 vx vy vz))"
    by blast
  have s': "R3D_SetMaterialVec3 (Some m) (Some n) (Vector3 vx vy vz) = Inr (Some m')"
    using s by (simp add: R3D_SetMaterial_def)
  have b: "R3D_BindCustomUniforms (Some sh) (Some m') =
             Inr (concat (map (bind_calls m') (take (customUniformCount sh) (customUniforms sh))))"
    using ok assms(3) by (rule R3D_BindCustomUniforms_ok)
  have c: "bind_calls m' (customUniforms sh ! k) =
             [GlUniform3fv (u_location (customUniforms sh ! k)) [vx, vy, vz]]"
    using f h assms(5,6) by (simp add: bind_calls_def bind_param_def)
  have t: "take (customUniformCount sh) (customUniforms sh) ! k = customUniforms sh ! k"
    using assms(4) by simp
  from s' b c t show ?thesis by blast
qed

section \<open>The example inputs, evaluated\<close>

lemma example_split_loop:
  "split_user_code_loop example_code [] [] =
     (''uniform float uA;'' @ [newline] @ ''  '' @ [tab] @ ''uniform sampler2D uTexA;''
        @ [newline],
      ''ALBEDO.rgb *= uA;'' @ [newline] @ ''   '' @ [newline] @ ''uniform'' @ [tab]
        @ ''float uB;'' @ [newline] @ ''EMISSION = vec3(0.0);'' @ [newline])"
  by (simp add: example_code_def split_user_code_loop.simps newline_def tab_def)


lemma example_frag_version: "strstr example_frag ''#version'' = Some 12"
  by (simp add: example_frag_def newline_def)

lemma example_frag_version_end: "strchr (drop 12 example_frag) newline = Some 17"
  by (simp add: example_frag_def newline_def USER_FRAGMENT_MARKER_def)

lemma example_frag_marker: "strstr example_frag USER_FRAGMENT_MARKER = Some 44"
  by (simp add: example_frag_def newline_def USER_FRAGMENT_MARKER_def)

lemma example_compose:
  "compose_fragment_shader example_frag u b =
     Inr (Some (''// geometry'' @ [newline] @ ''#version 330 core'' @ [newline] @ u
                @ ''void main() {'' @ [newline] @ b @ [newline] @ ''}'' @ [newline]))"
  by (simp add: compose_fragment_shader_def example_frag_version example_frag_version_end
      example_frag_marker)
    (simp add: example_frag_def USER_FRAGMENT_MARKER_def)


lemma example_gl_fields:
  "glCreateShader example_gl GL_VERTEX_SHADER = 1"
  "glCreateShader example_gl GL_FRAGMENT_SHADER = 2"
  "compile_status example_gl k s"
  "glCreateProgram example_gl = 3"
  "link_status example_gl v f"
  "active_uniforms example_gl p = example_uniforms"
  "glGetUniformBlockIndex example_gl p bl = None"
  by (simp_all add: example_gl_def)


section \<open>Properties of uniform discovery\<close>


declare discover_loop.simps(2) [simp del]







lemma expected_descriptors_length [simp]:
  "length (expected_descriptors gl p cs s) = length cs"
  by (induction cs arbitrary: s) auto





section \<open>Properties of the source composition\<close>

subsection \<open>strchr and strstr\<close>

lemma strchr_None_iff: "strchr s c = None \<longleftrightarrow> c \<notin> set s"
  by (induction s) auto

lemma strchr_SomeD:
  "strchr s c = Some k \<Longrightarrow> k < length s \<and> s ! k = c \<and> c \<notin> set (take k s)"
proof (induction s arbitrary: k)
  case Nil
  then show ?case by simp
next
  case (Cons d s)
  show ?case
  proof (cases "d = c")
    case True
    with Cons.prems show ?thesis by simp
  next
    case False
    with Cons.prems obtain j where j: "strchr s c = Some j" "k = Suc j" by auto
    from Cons.IH [OF j(1)] False j(2) show ?thesis by simp
  qed
qed

lemma strchr_split:
  assumes "strchr s c = Some k"
  shows "s = take k s @ c # drop (Suc k) s"
proof -
  from strchr_SomeD [OF assms] have "k < length s" "s ! k = c" by simp_all
  then show ?thesis by (metis id_take_nth_drop)
qed

lemma strstr_SomeD:
  "strstr h n = Some k \<Longrightarrow> k + length n \<le> length h \<and> take (length n) (drop k h) = n"
proof (induction h arbitrary: k)
  case Nil
  then show ?case by (simp split: if_splits)
next
  case (Cons c h)
  show ?case
  proof (cases "prefix n (c # h)")
    case True
    with Cons.prems have k: "k = 0" by simp
    from True obtain zs where zs: "c # h = n @ zs" by (auto simp: prefix_def)
    have "length n \<le> length (c # h)" "take (length n) (c # h) = n"
      unfolding zs by simp_all
    with k show ?thesis by simp
  next
    case False
    with Cons.prems obtain j where j: "strstr h n = Some j" "k = Suc j" by auto
    from Cons.IH [OF j(1)] j(2) show ?thesis by simp
  qed
qed

subsection \<open>The lines of a text\<close>

lemma lines_acc_no_newline:
  "newline \<notin> set l \<Longrightarrow> lines_acc l cur = (if cur @ l = [] then [] else [cur @ l])"
  by (induction l arbitrary: cur) auto

lemma lines_acc_line:
  "newline \<notin> set l \<Longrightarrow> lines_acc (l @ newline # rest) cur = (cur @ l) # lines_acc rest []"
  by (induction l arbitrary: cur) auto

lemma source_lines_no_newline:
  "newline \<notin> set s \<Longrightarrow> s \<noteq> [] \<Longrightarrow> source_lines s = [s]"
  by (simp add: source_lines_def lines_acc_no_newline)

lemma source_lines_line:
  "newline \<notin> set l \<Longrightarrow> source_lines (l @ newline # rest) = l # source_lines rest"
  by (simp add: source_lines_def lines_acc_line)

text \<open>
  The test of the loop looks at the rest of the whole text, not at the line alone; the
  two agree, since a newline is neither skipped nor part of the keyword.
\<close>

lemma uniform_test_on_line:
  assumes "newline \<notin> set l"
  shows "(take 8 (dropWhile (\<lambda>c. c = CHR '' '' \<or> c = tab) (l @ newline # rest)) = ''uniform '')
           = is_uniform_line l"
proof -
  let ?ws = "\<lambda>c. c = CHR '' '' \<or> c = tab"
  let ?d = "dropWhile ?ws l"
  have nl: "\<not> ?ws newline" by (simp add: newline_def tab_def)
  have kw: "newline \<notin> set ''uniform ''" by (simp add: newline_def)
  show ?thesis
  proof (cases "\<forall>c \<in> set l. ?ws c")
    case True
    then have l1: "dropWhile ?ws (l @ newline # rest) = newline # rest"
      using nl by (simp add: dropWhile_append2)
    have l2: "?d = []" using True by simp
    have a1: "take 8 (newline # rest) \<noteq> ''uniform ''"
      by (simp add: newline_def)
    have a2: "take 8 ([] :: string) \<noteq> ''uniform ''"
      by simp
    show ?thesis
      unfolding is_uniform_line_def l1 l2 using a1 a2 by (simp only:)
  next
    case False
    then obtain x where x: "x \<in> set l" "\<not> ?ws x" by blast
    have app: "dropWhile ?ws (l @ newline # rest) = ?d @ newline # rest"
      using x by (rule dropWhile_append1)
    have dn: "newline \<notin> set ?d"
    proof
      assume "newline \<in> set ?d"
      then have "newline \<in> set l" by (rule set_dropWhileD)
      with assms show False by simp
    qed
    show ?thesis
    proof (cases "8 \<le> length ?d")
      case True
      then show ?thesis by (simp add: app is_uniform_line_def)
    next
      case short: False
      then have mem: "newline \<in> set (take 8 (?d @ newline # rest))"
        by (simp add: take_Cons')
      have "take 8 (?d @ newline # rest) \<noteq> ''uniform ''"
      proof
        assume e: "take 8 (?d @ newline # rest) = ''uniform ''"
        from mem have "newline \<in> set ''uniform ''" unfolding e .
        with kw show False by (simp only: not_True_eq_False)
      qed
      moreover have "take 8 ?d \<noteq> ''uniform ''"
      proof
        assume "take 8 ?d = ''uniform ''"
        then have "length (take 8 ?d) = 8" by simp
        with short show False by simp
      qed
      ultimately show ?thesis by (simp add: app is_uniform_line_def)
    qed
  qed
qed

lemma joined_append [simp]: "joined (ls @ ms) = joined ls @ joined ms"
  by (simp add: joined_def)

lemma joined_Cons [simp]: "joined (l # ls) = l @ newline # joined ls"
  by (simp add: joined_def)

lemma joined_Nil [simp]: "joined [] = []"
  by (simp add: joined_def)

text \<open>One turn of the loop: on the last line, on a declaration, on another line.\<close>

lemma split_loop_empty: "split_user_code_loop [] u b = (u, b)"
  by (subst split_user_code_loop.simps) simp

lemma split_loop_last_line:
  assumes ne: "s \<noteq> []" and None: "strchr s newline = None"
  shows "split_user_code_loop s u b =
           (if is_uniform_line s then (u @ s @ [newline], b) else (u, b @ s @ [newline]))"
  apply (subst split_user_code_loop.simps)
  apply (simp only: Let_def None option.case ne if_False)
  apply (simp add: is_uniform_line_def ne)
  done

lemma split_loop_declaration:
  assumes ne: "s \<noteq> []" and Some: "strchr s newline = Some k"
    and test: "(take 8 (dropWhile (\<lambda>c. c = CHR '' '' \<or> c = tab) s) = ''uniform '')
                 = is_uniform_line (take k s)"
    and True: "is_uniform_line (take k s)"
  shows "split_user_code_loop s u b =
           split_user_code_loop (drop (Suc k) s) (u @ take k s @ [newline]) b"
  apply (subst split_user_code_loop.simps)
  apply (simp only: Let_def Some option.case ne if_False test True if_True)
  apply simp
  done

lemma split_loop_other:
  assumes ne: "s \<noteq> []" and Some: "strchr s newline = Some k"
    and test: "(take 8 (dropWhile (\<lambda>c. c = CHR '' '' \<or> c = tab) s) = ''uniform '')
                 = is_uniform_line (take k s)"
    and False: "\<not> is_uniform_line (take k s)"
  shows "split_user_code_loop s u b =
           split_user_code_loop (drop (Suc k) s) u
             (if 0 < k then b @ take k s @ [newline] else b)"
  apply (subst split_user_code_loop.simps)
  apply (simp only: Let_def Some option.case ne if_False test False)
  apply simp
  done

lemma routed_last_line:
  assumes "source_lines s = [s]" and "s \<noteq> []"
  shows "(if is_uniform_line s then (u @ s @ [newline], b) else (u, b @ s @ [newline])) =
           (u @ user_declarations s, b @ user_body s)"
  using assms by (simp add: user_declarations_def user_body_def)

lemma routed_declaration:
  assumes "source_lines s = l # source_lines rest" and "is_uniform_line l"
  shows "((u @ l @ [newline]) @ user_declarations rest, b @ user_body rest) =
           (u @ user_declarations s, b @ user_body s)"
  using assms by (simp add: user_declarations_def user_body_def)

lemma routed_other:
  assumes "source_lines s = l # source_lines rest" and "\<not> is_uniform_line l"
  shows "(u @ user_declarations rest, (if l \<noteq> [] then b @ l @ [newline] else b) @ user_body rest) =
           (u @ user_declarations s, b @ user_body s)"
  using assms by (simp add: user_declarations_def user_body_def)

text \<open>The loop of \<open>split_user_code\<close> routes the lines of the text.\<close>

lemma split_user_code_loop_lines:
  "split_user_code_loop s u b = (u @ user_declarations s, b @ user_body s)"
proof (induction "length s" arbitrary: s u b rule: less_induct)
  case less
  show ?case
  proof (cases "s = []")
    case True
    have "split_user_code_loop [] u b = (u @ user_declarations [], b @ user_body [])"
      by (simp add: split_loop_empty user_declarations_def user_body_def source_lines_def)
    then show ?thesis unfolding True .
  next
    case ne: False
    show ?thesis
    proof (cases "strchr s newline")
      case None
      then have nn: "newline \<notin> set s" by (simp add: strchr_None_iff)
      have sl: "source_lines s = [s]" using nn ne by (rule source_lines_no_newline)
      show ?thesis
        unfolding split_loop_last_line [OF ne None] using sl ne by (rule routed_last_line)
    next
      case (Some k)
      let ?l = "take k s" and ?rest = "drop (Suc k) s"
      have s: "?l @ newline # ?rest = s" using strchr_split [OF Some] by (rule sym)
      have nn: "newline \<notin> set ?l" using strchr_SomeD [OF Some] by simp
      have k: "k < length s" using strchr_SomeD [OF Some] by simp
      have sl: "source_lines s = ?l # source_lines ?rest"
        using source_lines_line [OF nn, of ?rest] unfolding s .
      have test: "(take 8 (dropWhile (\<lambda>c. c = CHR '' '' \<or> c = tab) s) = ''uniform '')
                    = is_uniform_line ?l"
        using uniform_test_on_line [OF nn, of ?rest] unfolding s .
      have shorter: "length ?rest < length s" using k by simp
      note IH = less [OF shorter]
      show ?thesis
      proof (cases "is_uniform_line ?l")
        case True
        show ?thesis
          unfolding split_loop_declaration [OF ne Some test True] IH
          using sl True by (rule routed_declaration)
      next
        case False
        have k0: "(0 < k) = (?l \<noteq> [])" using k by auto
        show ?thesis
          unfolding split_loop_other [OF ne Some test False] IH k0
          using sl False by (rule routed_other)
      qed
    qed
  qed
qed

lemma split_user_code_lines:
  "split_user_code s =
     (if length s < length (user_declarations s) \<or> length s < length (user_body s)
      then Inl OutOfBounds
      else Inr (user_declarations s, user_body s))"
  by (simp add: split_user_code_def split_user_code_loop_lines)

subsection \<open>The buffers of split\_user\_code\<close>

lemma length_joined: "length (joined ls) = sum_list (map (\<lambda>l. Suc (length l)) ls)"
  by (induction ls) simp_all

lemma lines_acc_total:
  "sum_list (map (\<lambda>l. Suc (length l)) (lines_acc s cur)) =
     (if s = [] then (if cur = [] then 0 else Suc (length cur))
      else if last s = newline then length s + length cur
      else Suc (length s + length cur))"
proof (induction s arbitrary: cur)
  case Nil
  then show ?case by simp
next
  case (Cons c s)
  show ?case
  proof (cases "c = newline")
    case True
    then show ?thesis using Cons.IH [of "[]"] by (cases "s = []") simp_all
  next
    case False
    then show ?thesis using Cons.IH [of "cur @ [c]"] by (cases "s = []") simp_all
  qed
qed

lemma sum_list_two_filters:
  "(\<And>x. \<not> (P x \<and> Q x)) \<Longrightarrow>
     sum_list (map f (filter P xs)) + sum_list (map f (filter Q xs)) \<le> sum_list (map f xs)"
  for f :: "'a \<Rightarrow> nat"
  by (induction xs) (auto simp: add.commute add_le_mono trans_le_add1)

text \<open>
  The two routed texts together are at most one character longer than the source, and
  not longer than the source when it ends with a newline. So each buffer can take what
  the loop copies into it, and after a source that ends with a newline the terminating
  NUL fits as well.
\<close>

lemma routed_lengths:
  "length (user_declarations s) + length (user_body s) \<le> Suc (length s)"
  "s \<noteq> [] \<Longrightarrow> last s = newline \<Longrightarrow>
     length (user_declarations s) + length (user_body s) \<le> length s"
proof -
  have le: "length (user_declarations s) + length (user_body s)
              \<le> sum_list (map (\<lambda>l. Suc (length l)) (source_lines s))"
    unfolding user_declarations_def user_body_def length_joined
    by (rule sum_list_two_filters) simp
  have t: "sum_list (map (\<lambda>l. Suc (length l)) (source_lines s)) =
             (if s = [] then 0 else if last s = newline then length s else Suc (length s))"
    by (simp add: source_lines_def lines_acc_total)
  show "length (user_declarations s) + length (user_body s) \<le> Suc (length s)"
    using le t by (simp split: if_splits)
  show "length (user_declarations s) + length (user_body s) \<le> length s"
    if "s \<noteq> []" "last s = newline"
    using le t that by simp
qed

lemma split_user_code_newline_terminated:
  assumes "s \<noteq> []" and "last s = newline"
  shows "split_user_code s = Inr (user_declarations s, user_body s)"
proof -
  from routed_lengths(2) [OF assms]
  have "\<not> (length s < length (user_declarations s) \<or> length s < length (user_body s))"
    by simp
  then show ?thesis by (simp add: split_user_code_lines)
qed

text \<open>
  A source of one line without a final newline: the line and the newline added to it
  fill the buffer, and the terminating NUL is written behind its end.
\<close>

lemma split_user_code_overflow_example:
  "split_user_code ''uniform float x;'' = Inl OutOfBounds"
proof -
  have "split_user_code_loop ''uniform float x;'' [] [] = (''uniform float x;'' @ [newline], [])"
    by (simp add: split_user_code_loop.simps newline_def tab_def)
  then show ?thesis by (simp add: split_user_code_def)
qed

subsection \<open>compose\_fragment\_shader\<close>

lemma compose_fragment_shader_pieces:
  assumes "strstr base ''#version'' = Some vs"
    and "strstr base USER_FRAGMENT_MARKER = Some mk"
    and "version_line_end base vs \<le> mk"
  shows "compose_fragment_shader base u b =
           Inr (Some (template_head base vs @ u @ template_middle base vs mk @ b
                      @ template_tail base mk))"
  using assms
  by (simp add: compose_fragment_shader_def version_line_end_def template_head_def
      template_middle_def template_tail_def Let_def)

lemma template_pieces:
  assumes "strstr base USER_FRAGMENT_MARKER = Some mk"
    and "version_line_end base vs \<le> mk"
  shows "base = template_head base vs @ template_middle base vs mk @ USER_FRAGMENT_MARKER
                @ template_tail base mk"
proof -
  let ?ve = "version_line_end base vs" and ?n = "length USER_FRAGMENT_MARKER"
  from strstr_SomeD [OF assms(1)]
  have m: "mk + ?n \<le> length base" "take ?n (drop mk base) = USER_FRAGMENT_MARKER"
    by simp_all
  have "base = take mk base @ drop mk base" by simp
  also have "drop mk base = take ?n (drop mk base) @ drop ?n (drop mk base)"
    by (rule append_take_drop_id [symmetric])
  also have "take mk base = take ?ve base @ take (mk - ?ve) (drop ?ve base)"
    using assms(2) by (metis le_add_diff_inverse take_add)
  finally show ?thesis
    by (simp add: m(2) template_head_def template_middle_def template_tail_def add.commute)
qed

lemma template_head_version_line:
  assumes "strstr base ''#version'' = Some vs"
  shows "\<exists>line. template_head base vs = take vs base @ line \<and> prefix ''#version'' line
           \<and> newline \<notin> set (butlast line)"
proof -
  have len: "length ''#version'' = 8" by simp
  from strstr_SomeD [OF assms, unfolded len]
  have v: "vs + 8 \<le> length base" "take 8 (drop vs base) = ''#version''"
    by blast+
  have pre: "prefix ''#version'' (drop vs base)"
    using v(2) by (metis take_is_prefix)
  have nonl: "newline \<notin> set ''#version''" by (simp add: newline_def)
  show ?thesis
  proof (cases "strchr (drop vs base) newline")
    case None
    then have "template_head base vs = take vs base @ drop vs base"
      by (simp add: template_head_def version_line_end_def)
    moreover have "newline \<notin> set (butlast (drop vs base))"
      using None by (meson in_set_butlastD strchr_None_iff)
    ultimately show ?thesis using pre by blast
  next
    case (Some k)
    let ?d = "drop vs base"
    from strchr_SomeD [OF Some] have k: "k < length ?d" "?d ! k = newline"
      "newline \<notin> set (take k ?d)"
      by simp_all
    have line: "take (Suc k) ?d = take k ?d @ [newline]"
      using k(1,2) by (simp add: take_Suc_conv_app_nth)
    have "take (vs + Suc k) base = take vs base @ take (Suc k) ?d"
      by (rule take_add)
    then have h: "template_head base vs = take vs base @ take (Suc k) ?d"
      using Some by (simp add: template_head_def version_line_end_def)
    have k8: "8 \<le> k"
    proof (rule ccontr)
      assume "\<not> 8 \<le> k"
      then have "k < 8" by simp
      then have "take 8 ?d ! k = newline" using k(2) by simp
      moreover have "k < length (take 8 ?d)" using \<open>k < 8\<close> v(2) by simp
      ultimately have "newline \<in> set (take 8 ?d)" by (metis nth_mem)
      with nonl v(2) show False by simp
    qed
    have "take 8 (take (Suc k) ?d) = ''#version''"
      using k8 v(2) by (simp add: min_def)
    then have p: "prefix ''#version'' (take (Suc k) ?d)"
      by (metis take_is_prefix)
    have "newline \<notin> set (butlast (take (Suc k) ?d))"
      using k(3) by (simp add: line)
    with h p show ?thesis by blast
  qed
qed

subsection \<open>The composed source in R3D\_CreateCustomShader\<close>

lemma create_hands_composed_source:
  assumes "code \<noteq> []" and "split_user_code code = Inr (u, b)"
    and "compose_fragment_shader base u b = Inr (Some composed)"
    and "fst (compile_shader_source gl V GL_VERTEX_SHADER) \<noteq> 0"
    and "glCreateShader gl GL_FRAGMENT_SHADER \<noteq> 0"
  shows "\<exists>r tr. R3D_CreateCustomShader gl V base (Some code) = Inr (r, tr)
           \<and> GlShaderSource (glCreateShader gl GL_FRAGMENT_SHADER) composed \<in> set tr"
proof -
  obtain vs t1 where cv: "compile_shader_source gl V GL_VERTEX_SHADER = (vs, t1)"
    by (cases "compile_shader_source gl V GL_VERTEX_SHADER")
  obtain fs t2 where cf: "compile_shader_source gl composed GL_FRAGMENT_SHADER = (fs, t2)"
    by (cases "compile_shader_source gl composed GL_FRAGMENT_SHADER")
  obtain prog t3 where ln: "link_shader_program gl vs fs = (prog, t3)"
    by (cases "link_shader_program gl vs fs")
  obtain sh2 t5 where di: "discover_custom_uniforms gl
      (cache_builtin_uniforms gl (R3D_Shader_zero\<lparr>program := prog\<rparr>)) = (sh2, t5)"
    by (cases "discover_custom_uniforms gl
      (cache_builtin_uniforms gl (R3D_Shader_zero\<lparr>program := prog\<rparr>))")
  have vs: "vs \<noteq> 0" using assms(4) cv by simp
  have mem: "GlShaderSource (glCreateShader gl GL_FRAGMENT_SHADER) composed \<in> set t2"
    using cf assms(5) by (auto simp: compile_shader_source_def Let_def split: if_splits)
  show ?thesis
  proof (cases "fs = 0")
    case True
    have "R3D_CreateCustomShader gl V base (Some code) = Inr (None, t1 @ t2 @ [GlDeleteShader vs])"
      using assms(1,2,3) cv cf vs True by (simp add: R3D_CreateCustomShader_def)
    with mem show ?thesis by simp
  next
    case fs: False
    show ?thesis
    proof (cases "prog = 0")
      case True
      have "R3D_CreateCustomShader gl V base (Some code) =
              Inr (None, t1 @ t2 @ t3 @ [GlDeleteShader vs, GlDeleteShader fs])"
        using assms(1,2,3) cv cf ln vs fs True by (simp add: R3D_CreateCustomShader_def)
      with mem show ?thesis by simp
    next
      case False
      have "R3D_CreateCustomShader gl V base (Some code) =
              Inr (Some sh2, t1 @ t2 @ t3 @ [GlDeleteShader vs, GlDeleteShader fs] @ t5
                   @ (case glGetUniformBlockIndex gl prog ''ViewBlock'' of
                        None \<Rightarrow> [] | Some ix \<Rightarrow> [GlUniformBlockBinding prog ix 0])
                   @ builtin_sampler_setup sh2)"
        using assms(1,2,3) cv cf ln di vs fs False
        by (simp add: R3D_CreateCustomShader_def Let_def)
      with mem show ?thesis by simp
    qed
  qed
qed

text \<open>
  What the splitter and the composer compute in general. Take a user source that is not
  empty and whose routed texts fit their buffers (as they do when the source ends with a
  newline), and a template in which the marker does not stand before the end of the
  version line.
  \<^item> The source is split line by line. A line goes to the declarations when the test of
    the code holds for it (\<open>is_uniform_line\<close>). Every other line that has at least one
    character goes to the body. Each buffer keeps the order of its lines, each line
    followed by a newline.
  \<^item> The composed source is the template up to and including the version line, then the
    declarations, then the template from there up to the marker, then the body, then the
    template after the marker.
  \<^item> That text is what \<open>R3D_CreateCustomShader\<close> gives to the fragment shader object,
    once the vertex shader has compiled and the object exists.
\<close>

lemma create_composes_fragment_source:
  assumes "code \<noteq> []"
    and "length (user_declarations code) \<le> length code"
    and "length (user_body code) \<le> length code"
    and "strstr base ''#version'' = Some vs"
    and "strstr base USER_FRAGMENT_MARKER = Some mk"
    and "version_line_end base vs \<le> mk"
    and "fst (compile_shader_source gl V GL_VERTEX_SHADER) \<noteq> 0"
    and "glCreateShader gl GL_FRAGMENT_SHADER \<noteq> 0"
  shows "split_user_code code = Inr (user_declarations code, user_body code)
       \<and> user_declarations code = joined (filter is_uniform_line (source_lines code))
       \<and> user_body code =
           joined (filter (\<lambda>l. \<not> is_uniform_line l \<and> l \<noteq> []) (source_lines code))
       \<and> base = template_head base vs @ template_middle base vs mk @ USER_FRAGMENT_MARKER
                 @ template_tail base mk
       \<and> (\<exists>line. template_head base vs = take vs base @ line \<and> prefix ''#version'' line
             \<and> newline \<notin> set (butlast line))
       \<and> compose_fragment_shader base (user_declarations code) (user_body code) =
           Inr (Some (template_head base vs @ user_declarations code
                      @ template_middle base vs mk @ user_body code @ template_tail base mk))
       \<and> (\<exists>r tr. R3D_CreateCustomShader gl V base (Some code) = Inr (r, tr)
             \<and> GlShaderSource (glCreateShader gl GL_FRAGMENT_SHADER)
                  (template_head base vs @ user_declarations code
                   @ template_middle base vs mk @ user_body code @ template_tail base mk)
                 \<in> set tr)"
proof -
  have sp: "split_user_code code = Inr (user_declarations code, user_body code)"
    using assms(2,3) by (simp add: split_user_code_lines)
  have co: "compose_fragment_shader base (user_declarations code) (user_body code) =
           Inr (Some (template_head base vs @ user_declarations code
                      @ template_middle base vs mk @ user_body code @ template_tail base mk))"
    using assms(4,5,6) by (rule compose_fragment_shader_pieces)
  have tp: "base = template_head base vs @ template_middle base vs mk @ USER_FRAGMENT_MARKER
                 @ template_tail base mk"
    using assms(5,6) by (rule template_pieces)
  have vl: "\<exists>line. template_head base vs = take vs base @ line \<and> prefix ''#version'' line
             \<and> newline \<notin> set (butlast line)"
    using assms(4) by (rule template_head_version_line)
  have cr: "\<exists>r tr. R3D_CreateCustomShader gl V base (Some code) = Inr (r, tr)
             \<and> GlShaderSource (glCreateShader gl GL_FRAGMENT_SHADER)
                  (template_head base vs @ user_declarations code
                   @ template_middle base vs mk @ user_body code @ template_tail base mk)
                 \<in> set tr"
    using assms(1) sp co assms(7,8) by (rule create_hands_composed_source)
  have ud: "user_declarations code = joined (filter is_uniform_line (source_lines code))"
    by (simp add: user_declarations_def)
  have ub: "user_body code =
           joined (filter (\<lambda>l. \<not> is_uniform_line l \<and> l \<noteq> []) (source_lines code))"
    by (simp add: user_body_def)
  show ?thesis
    by (intro conjI) (rule sp ud ub tp vl co cr)+
qed

lemma create_composes_fragment_source_example:
  "example_code \<noteq> []
   \<and> length (user_declarations example_code) \<le> length example_code
   \<and> length (user_body example_code) \<le> length example_code
   \<and> strstr example_frag ''#version'' = Some 12
   \<and> strstr example_frag USER_FRAGMENT_MARKER = Some 44
   \<and> version_line_end example_frag 12 \<le> 44
   \<and> split_user_code example_code =
       Inr (''uniform float uA;'' @ [newline] @ ''  '' @ [tab] @ ''uniform sampler2D uTexA;''
              @ [newline],
            ''ALBEDO.rgb *= uA;'' @ [newline] @ ''   '' @ [newline] @ ''uniform'' @ [tab]
              @ ''float uB;'' @ [newline] @ ''EMISSION = vec3(0.0);'' @ [newline])
   \<and> (\<exists>r tr. R3D_CreateCustomShader example_gl example_vert example_frag (Some example_code)
                = Inr (r, tr)
         \<and> GlShaderSource 2
              (''// geometry'' @ [newline] @ ''#version 330 core'' @ [newline]
               @ ''uniform float uA;'' @ [newline] @ ''  '' @ [tab] @ ''uniform sampler2D uTexA;''
               @ [newline]
               @ ''void main() {'' @ [newline]
               @ ''ALBEDO.rgb *= uA;'' @ [newline] @ ''   '' @ [newline] @ ''uniform'' @ [tab]
               @ ''float uB;'' @ [newline] @ ''EMISSION = vec3(0.0);'' @ [newline]
               @ [newline] @ ''}'' @ [newline]) \<in> set tr)"
proof -
  let ?u = "''uniform float uA;'' @ [newline] @ ''  '' @ [tab] @ ''uniform sampler2D uTexA;''
              @ [newline]"
  let ?b = "''ALBEDO.rgb *= uA;'' @ [newline] @ ''   '' @ [newline] @ ''uniform'' @ [tab]
              @ ''float uB;'' @ [newline] @ ''EMISSION = vec3(0.0);'' @ [newline]"
  have ud: "user_declarations example_code = ?u" and ub: "user_body example_code = ?b"
    using split_user_code_loop_lines [of example_code "[]" "[]"]
    unfolding example_split_loop by simp_all
  have h1: "example_code \<noteq> []" by (simp add: example_code_def)
  have h2: "length (user_declarations example_code) \<le> length example_code"
    unfolding ud by (simp add: example_code_def)
  have h3: "length (user_body example_code) \<le> length example_code"
    unfolding ub by (simp add: example_code_def)
  note h4 = example_frag_version and h5 = example_frag_marker
  have h6: "version_line_end example_frag 12 \<le> 44"
    by (simp add: version_line_end_def example_frag_version_end)
  have h7: "fst (compile_shader_source example_gl example_vert GL_VERTEX_SHADER) \<noteq> 0"
    by (simp add: compile_shader_source_def example_gl_fields)
  have h8: "glCreateShader example_gl GL_FRAGMENT_SHADER \<noteq> 0"
    by (simp add: example_gl_fields)
  note inst = create_composes_fragment_source [OF h1 h2 h3 h4 h5 h6 h7 h8]
  from inst have sp: "split_user_code example_code = Inr (?u, ?b)"
    unfolding ud ub by blast
  have co: "compose_fragment_shader example_frag ?u ?b =
      Inr (Some (template_head example_frag 12 @ ?u @ template_middle example_frag 12 44 @ ?b
                 @ template_tail example_frag 44))"
    using inst unfolding ud ub by blast
  have pieces: "template_head example_frag 12 @ ?u @ template_middle example_frag 12 44 @ ?b
                 @ template_tail example_frag 44 =
      ''// geometry'' @ [newline] @ ''#version 330 core'' @ [newline] @ ?u
       @ ''void main() {'' @ [newline] @ ?b @ [newline] @ ''}'' @ [newline]"
    using co unfolding example_compose by simp
  from inst obtain r tr where
    cr: "R3D_CreateCustomShader example_gl example_vert example_frag (Some example_code)
           = Inr (r, tr)"
    and mem: "GlShaderSource (glCreateShader example_gl GL_FRAGMENT_SHADER)
                (template_head example_frag 12 @ user_declarations example_code
                 @ template_middle example_frag 12 44 @ user_body example_code
                 @ template_tail example_frag 44) \<in> set tr"
    by blast
  have mem': "GlShaderSource 2
              (''// geometry'' @ [newline] @ ''#version 330 core'' @ [newline] @ ?u
               @ ''void main() {'' @ [newline] @ ?b @ [newline] @ ''}'' @ [newline]) \<in> set tr"
    using mem unfolding ud ub pieces by (simp add: example_gl_fields)
  have ex: "\<exists>r tr. R3D_CreateCustomShader example_gl example_vert example_frag (Some example_code)
                = Inr (r, tr)
         \<and> GlShaderSource 2
              (''// geometry'' @ [newline] @ ''#version 330 core'' @ [newline] @ ?u
               @ ''void main() {'' @ [newline] @ ?b @ [newline] @ ''}'' @ [newline]) \<in> set tr"
    using cr mem' by blast
  show ?thesis
    apply (intro conjI)
           apply (rule h1)
          apply (rule h2)
         apply (rule h3)
        apply (rule h4)
       apply (rule h5)
      apply (rule h6)
     apply (rule sp)
    using ex apply simp
    done
qed

text \<open>
  Claim C4: the code at the failing input, a declaration whose keyword \<open>uniform\<close> is
  followed by a tab. The line is not put with the declarations: it goes to the body, and
  the composed source has it inside \<open>main\<close>, after the marker's place, where a uniform
  cannot be declared. With a space in the place of the tab the same line goes to the
  declarations.
\<close>

theorem uniform_tab_line_goes_to_body:
  "split_user_code tab_declaration_code =
     Inr ([], ''uniform'' @ [tab] @ ''float uB;'' @ [newline] @ ''ALBEDO.r = uB;'' @ [newline])
   \<and> (case R3D_CreateCustomShader example_gl example_vert example_frag
             (Some tab_declaration_code) of
        Inl e \<Rightarrow> False
      | Inr (r, tr) \<Rightarrow>
          GlShaderSource 2
            (''// geometry'' @ [newline] @ ''#version 330 core'' @ [newline]
             @ ''void main() {'' @ [newline]
             @ ''uniform'' @ [tab] @ ''float uB;'' @ [newline] @ ''ALBEDO.r = uB;'' @ [newline]
             @ [newline] @ ''}'' @ [newline]) \<in> set tr)
   \<and> split_user_code (''uniform float uB;'' @ [newline] @ ''ALBEDO.r = uB;'' @ [newline]) =
       Inr (''uniform float uB;'' @ [newline], ''ALBEDO.r = uB;'' @ [newline])"
proof -
  let ?b = "''uniform'' @ [tab] @ ''float uB;'' @ [newline] @ ''ALBEDO.r = uB;'' @ [newline]"
  have lp: "split_user_code_loop tab_declaration_code [] [] = ([], ?b)"
    by (simp add: tab_declaration_code_def split_user_code_loop.simps newline_def tab_def)
  have sp: "split_user_code tab_declaration_code = Inr ([], ?b)"
    by (simp add: split_user_code_def lp) (simp add: tab_declaration_code_def)
  have ne: "tab_declaration_code \<noteq> []"
    by (simp add: tab_declaration_code_def)
  have co: "compose_fragment_shader example_frag [] ?b =
      Inr (Some (''// geometry'' @ [newline] @ ''#version 330 core'' @ [newline] @ []
                 @ ''void main() {'' @ [newline] @ ?b @ [newline] @ ''}'' @ [newline]))"
    by (rule example_compose)
  have h7: "fst (compile_shader_source example_gl example_vert GL_VERTEX_SHADER) \<noteq> 0"
    by (simp add: compile_shader_source_def example_gl_fields)
  have h8: "glCreateShader example_gl GL_FRAGMENT_SHADER \<noteq> 0"
    by (simp add: example_gl_fields)
  from create_hands_composed_source [OF ne sp co h7 h8] obtain r tr where
    cr: "R3D_CreateCustomShader example_gl example_vert example_frag
           (Some tab_declaration_code) = Inr (r, tr)"
    and mem: "GlShaderSource (glCreateShader example_gl GL_FRAGMENT_SHADER)
                (''// geometry'' @ [newline] @ ''#version 330 core'' @ [newline] @ []
                 @ ''void main() {'' @ [newline] @ ?b @ [newline] @ ''}'' @ [newline])
              \<in> set tr"
    by blast
  have mem': "GlShaderSource 2
            (''// geometry'' @ [newline] @ ''#version 330 core'' @ [newline]
             @ ''void main() {'' @ [newline]
             @ ''uniform'' @ [tab] @ ''float uB;'' @ [newline] @ ''ALBEDO.r = uB;'' @ [newline]
             @ [newline] @ ''}'' @ [newline]) \<in> set tr"
    using mem by (simp add: example_gl_fields)
  have lp2: "split_user_code_loop
               (''uniform float uB;'' @ [newline] @ ''ALBEDO.r = uB;'' @ [newline]) [] [] =
             (''uniform float uB;'' @ [newline], ''ALBEDO.r = uB;'' @ [newline])"
    by (simp add: split_user_code_loop.simps newline_def tab_def)
  have sp2: "split_user_code (''uniform float uB;'' @ [newline] @ ''ALBEDO.r = uB;'' @ [newline])
              = Inr (''uniform float uB;'' @ [newline], ''ALBEDO.r = uB;'' @ [newline])"
    unfolding split_user_code_def lp2 by simp
  have cs: "(case R3D_CreateCustomShader example_gl example_vert example_frag
             (Some tab_declaration_code) of
        Inl e \<Rightarrow> False
      | Inr (r, tr) \<Rightarrow>
          GlShaderSource 2
            (''// geometry'' @ [newline] @ ''#version 330 core'' @ [newline]
             @ ''void main() {'' @ [newline]
             @ ''uniform'' @ [tab] @ ''float uB;'' @ [newline] @ ''ALBEDO.r = uB;'' @ [newline]
             @ [newline] @ ''}'' @ [newline]) \<in> set tr)"
    unfolding cr using mem' by simp
  show ?thesis
    by (intro conjI) (rule sp cs sp2)+
qed

text \<open>
  A line that holds only spaces has characters, and the splitter puts it in the body:
  only a line of length zero is dropped.
\<close>

lemma line_of_spaces_goes_to_body:
  "split_user_code (''   '' @ [newline]) = Inr ([], ''   '' @ [newline])"
proof -
  have "split_user_code_loop (''   '' @ [newline]) [] [] = ([], ''   '' @ [newline])"
    by (simp add: split_user_code_loop.simps newline_def tab_def)
  then show ?thesis by (simp add: split_user_code_def)
qed

section \<open>Truncated names\<close>

lemma long_name_bc_facts:
  "take (R3D_MAX_UNIFORM_NAME_LENGTH - Suc 0) long_name_b = replicate 63 (CHR ''a'')"
  "take (R3D_MAX_UNIFORM_NAME_LENGTH - Suc 0) long_name_c = replicate 63 (CHR ''a'')"
  "replicate 63 (CHR ''a'') \<noteq> long_name_b"
  "replicate 63 (CHR ''a'') \<noteq> long_name_c"
  "long_name_b \<noteq> long_name_c"
  "length long_name_b = 64" "length long_name_c = 64"
proof -
  show "take (R3D_MAX_UNIFORM_NAME_LENGTH - Suc 0) long_name_b = replicate 63 (CHR ''a'')"
    by (simp add: long_name_b_def R3D_MAX_UNIFORM_NAME_LENGTH_def)
  show "take (R3D_MAX_UNIFORM_NAME_LENGTH - Suc 0) long_name_c = replicate 63 (CHR ''a'')"
    by (simp add: long_name_c_def R3D_MAX_UNIFORM_NAME_LENGTH_def)
  have "length (replicate 63 (CHR ''a'')) \<noteq> length long_name_b"
    by (simp add: long_name_b_def)
  then show "replicate 63 (CHR ''a'') \<noteq> long_name_b" by metis
  have "length (replicate 63 (CHR ''a'')) \<noteq> length long_name_c"
    by (simp add: long_name_c_def)
  then show "replicate 63 (CHR ''a'') \<noteq> long_name_c" by metis
  show "long_name_b \<noteq> long_name_c"
    by (simp add: long_name_b_def long_name_c_def)
  show "length long_name_b = 64" "length long_name_c = 64"
    by (simp_all add: long_name_b_def long_name_c_def)
qed

text \<open>
  Claim C10: the code at the failing input, two names of 64 characters that share their
  first 63 characters, set one after the other on an empty material. Both are stored cut
  to the same 63 characters. The search of the second call compares the stored name with
  the whole second name, does not find the parameter that the first call stored, and the
  call appends another one: the two names do not address the same parameter, and the
  material holds two parameters under one stored name.
\<close>

theorem long_names_get_separate_entries:
  "take 63 long_name_b = take 63 long_name_c \<and> long_name_b \<noteq> long_name_c
   \<and> (case R3D_SetMaterialFloat (Some R3D_Material_zero) (Some long_name_b) f1 of
        Inl e \<Rightarrow> Inl e
      | Inr m \<Rightarrow> R3D_SetMaterialFloat m (Some long_name_c) f2)
     = Inr (Some (R3D_Material_zero\<lparr>paramCapacity := 4,
          params := Some [\<lparr>p_name = replicate 63 (CHR ''a''), p_type = R3D_PARAM_FLOAT,
                           p_value = param_value_zero\<lparr>w0 := f1\<rparr>\<rparr>,
                          \<lparr>p_name = replicate 63 (CHR ''a''), p_type = R3D_PARAM_FLOAT,
                           p_value = param_value_zero\<lparr>w0 := f2\<rparr>\<rparr>],
          paramCount := 2\<rparr>))"
proof -
  have new: "find_param (params_of R3D_Material_zero) long_name_b = None" by simp
  let ?m = "R3D_Material_zero\<lparr>paramCapacity := 4,
        params := Some [\<lparr>p_name = replicate 63 (CHR ''a''), p_type = R3D_PARAM_FLOAT,
                         p_value = param_value_zero\<lparr>w0 := f1\<rparr>\<rparr>],
        paramCount := 1\<rparr>"
  have set: "R3D_SetMaterialFloat (Some R3D_Material_zero) (Some long_name_b) f1 = Inr (Some ?m)"
    using R3D_SetMaterial_new [OF R3D_Material_zero_ok new can_grow_zero, of "Arg_Float f1"]
    by (simp add: R3D_SetMaterial_def long_name_bc_facts)
  have ok: "material_ok ?m" by (simp add: material_ok_def INT_MAX_def)
  have grow: "can_grow ?m" by (simp add: can_grow_def)
  have new2: "find_param (params_of ?m) long_name_c = None"
    by (simp add: long_name_bc_facts)
  have set2: "R3D_SetMaterialFloat (Some ?m) (Some long_name_c) f2 =
      Inr (Some (R3D_Material_zero\<lparr>paramCapacity := 4,
          params := Some [\<lparr>p_name = replicate 63 (CHR ''a''), p_type = R3D_PARAM_FLOAT,
                           p_value = param_value_zero\<lparr>w0 := f1\<rparr>\<rparr>,
                          \<lparr>p_name = replicate 63 (CHR ''a''), p_type = R3D_PARAM_FLOAT,
                           p_value = param_value_zero\<lparr>w0 := f2\<rparr>\<rparr>],
          paramCount := 2\<rparr>))"
    using R3D_SetMaterial_new [OF ok new2 grow, of "Arg_Float f2"]
    by (simp add: R3D_SetMaterial_def long_name_bc_facts)
  have tk: "take 63 long_name_b = take 63 long_name_c"
    by (simp add: long_name_b_def long_name_c_def)
  show ?thesis
    by (simp only: set set2 sum.case tk long_name_bc_facts(5) not_False_eq_True simp_thms)
qed

lemma expected_descriptor_names:
  "map u_name (expected_descriptors gl p cs s) = map (\<lambda>(g, ty). take 63 (take 255 g)) cs"
  by (induction cs arbitrary: s) auto

lemma short_stored_never_matches_long:
  assumes "\<forall>p \<in> set ps. length (p_name p) < R3D_MAX_UNIFORM_NAME_LENGTH"
    and "R3D_MAX_UNIFORM_NAME_LENGTH \<le> length n"
  shows "find_param ps n = None"
proof -
  have "\<forall>p \<in> set ps. p_name p \<noteq> n"
  proof
    fix p assume "p \<in> set ps"
    with assms(1) have "length (p_name p) < R3D_MAX_UNIFORM_NAME_LENGTH" by blast
    with assms(2) show "p_name p \<noteq> n" by auto
  qed
  then show ?thesis by (simp add: find_param_None_iff)
qed

text \<open>
  What the two store sites and the bind path do with names, on a material that is in
  order, can take one more parameter and whose stored names have at most 63 characters.
  \<^item> A setter call succeeds and leaves such a material. When it appends a parameter, the
    stored name is the first 63 characters of the name it was given (which fits the 64
    bytes with its terminating NUL).
  \<^item> Binding compares the stored parameter names with the registered uniform names,
    which are cut the same way (lemma \<open>expected_descriptor_names\<close>): after a setter
    call with a name whose first 63 characters no parameter was stored under, a uniform
    registered under those 63 characters is bound to the parameter just appended.
\<close>

lemma stored_names_truncated:
  assumes "material_ok m"
    and "\<forall>p \<in> set (params_of m). length (p_name p) < R3D_MAX_UNIFORM_NAME_LENGTH"
    and "can_grow m"
  shows "\<exists>m'. R3D_SetMaterial (Some m) (Some n) a = Inr (Some m') \<and> material_ok m'
           \<and> (\<forall>p \<in> set (params_of m'). length (p_name p) < R3D_MAX_UNIFORM_NAME_LENGTH)
           \<and> (find_param (params_of m) n = None \<longrightarrow>
                 params_of m' = params_of m @
                   [\<lparr>p_name = take (R3D_MAX_UNIFORM_NAME_LENGTH - 1) n, p_type = arg_type a,
                     p_value = arg_write a param_value_zero\<rparr>])
           \<and> (find_param (params_of m) (take (R3D_MAX_UNIFORM_NAME_LENGTH - 1) n) = None \<longrightarrow>
                 (\<forall>info. u_name info = take (R3D_MAX_UNIFORM_NAME_LENGTH - 1) n \<longrightarrow>
                    bind_uniform m' info =
                      Inr (bind_param info
                        \<lparr>p_name = take (R3D_MAX_UNIFORM_NAME_LENGTH - 1) n, p_type = arg_type a,
                          p_value = arg_write a param_value_zero\<rparr>)))"
proof -
  let ?N = "R3D_MAX_UNIFORM_NAME_LENGTH"
  let ?q = "\<lparr>p_name = take (?N - 1) n, p_type = arg_type a,
             p_value = arg_write a param_value_zero\<rparr>"
  have long: "?N \<le> length n \<Longrightarrow> find_param (params_of m) n = None"
    using assms(2) by (rule short_stored_never_matches_long)
  have trunc_none: "find_param (params_of m) (take (?N - 1) n) = None \<Longrightarrow>
                      find_param (params_of m) n = None"
  proof (cases "?N \<le> length n")
    case True
    then show ?thesis using long by simp
  next
    case False
    then have "take (?N - 1) n = n" by simp
    moreover assume "find_param (params_of m) (take (?N - 1) n) = None"
    ultimately show ?thesis by simp
  qed
  show ?thesis
  proof (cases "find_param (params_of m) n")
    case None
    let ?m' = "m\<lparr>paramCapacity :=
                 (if params m = None then 4
                  else if paramCapacity m \<le> paramCount m then paramCapacity m * 2
                  else paramCapacity m),
               params := Some (params_of m @ [?q]),
               paramCount := paramCount m + 1\<rparr>"
    have s: "R3D_SetMaterial (Some m) (Some n) a = Inr (Some ?m')"
      using R3D_SetMaterial_new [OF assms(1) None assms(3), of a] by simp
    have ok: "material_ok ?m'"
      using assms(1,3) by (rule material_ok_after_new)
    have short: "\<forall>p \<in> set (params_of ?m'). length (p_name p) < ?N"
      using assms(2) by (auto simp: R3D_MAX_UNIFORM_NAME_LENGTH_def)
    have ps: "params_of ?m' = params_of m @ [?q]" by simp
    have cnt: "paramCount ?m' = paramCount m + 1" by simp
    have bind: "bind_uniform ?m' info = Inr (bind_param info ?q)"
      if "find_param (params_of m) (take (?N - 1) n) = None" "u_name info = take (?N - 1) n"
      for info
    proof -
      have "find_param (params_of m) (u_name info) = None"
        using that by simp
      then have "find_param (params_of m @ [?q]) (u_name info) = Some (length (params_of m))"
        using that(2) by (simp add: find_param_append_new)
      then have "bind_calls ?m' info = bind_param info ?q"
        by (simp only: bind_calls_def ps option.case nth_append_length)
      then show ?thesis
        by (simp only: bind_uniform_ok [OF ok])
    qed
    show ?thesis
      using s ok short ps None bind by (intro exI [of _ ?m']) auto
  next
    case (Some i)
    then have i: "i < length (params_of m)" "p_name (params_of m ! i) = n"
      by (auto dest: find_param_SomeD)
    let ?ps = "params_of m"
    let ?m' = "m\<lparr>params := Some (?ps[i := (?ps ! i)\<lparr>p_value := arg_write a (p_value (?ps ! i))\<rparr>])\<rparr>"
    have s: "R3D_SetMaterial (Some m) (Some n) a = Inr (Some ?m')"
      using assms(1) Some by (rule R3D_SetMaterial_found)
    have ok: "material_ok ?m'"
      using assms(1) i(1) by (rule material_ok_after_found)
    have short: "\<forall>p \<in> set (params_of ?m'). length (p_name p) < ?N"
    proof
      fix p assume "p \<in> set (params_of ?m')"
      then have "p \<in> set (?ps[i := (?ps ! i)\<lparr>p_value := arg_write a (p_value (?ps ! i))\<rparr>])"
        by simp
      then have "p \<in> set ?ps \<or> p = (?ps ! i)\<lparr>p_value := arg_write a (p_value (?ps ! i))\<rparr>"
        by (meson insertE set_update_subset_insert subsetD)
      moreover have "?ps ! i \<in> set ?ps" using i(1) by simp
      ultimately show "length (p_name p) < ?N" using assms(2) by auto
    qed
    have notlong: "\<not> ?N \<le> length n"
      using long Some by auto
    have nottrunc: "find_param (params_of m) (take (?N - 1) n) \<noteq> None"
      using trunc_none Some by auto
    show ?thesis
      using s ok short Some nottrunc by (intro exI [of _ ?m']) auto
  qed
qed

end
